theory Spec2Isabelle
  imports Main "HOL-Library.AList"
begin

unbundle bit_operations_syntax

section \<open>Values exchanged with other packages\<close>

text \<open>
  Go \<^verbatim>\<open>error\<close> values. \<^verbatim>\<open>Errorf\<close> is an error built by \<^verbatim>\<open>fmt.Errorf\<close> with its text,
  \<^verbatim>\<open>ErrAuthCritical\<close> is \<^verbatim>\<open>readpublisher.ErrAuthCritical\<close> with its message and the status
  code of its response, \<^verbatim>\<open>ErrServerClosed\<close> and \<^verbatim>\<open>ErrUseLastResponse\<close> are the two
  sentinels of \<^verbatim>\<open>net/http\<close>, and \<^verbatim>\<open>ErrExternal\<close> is any other error produced outside the
  two packages (credential validator, HTTP transport, JSON encoder, listener).
\<close>

datatype err =
    Errorf string
  | ErrAuthCritical string int
  | ErrServerClosed
  | ErrUseLastResponse
  | ErrExternal string

text \<open>\<^verbatim>\<open>base.StatusUnauthorized\<close> of gortsplib.\<close>

definition StatusUnauthorized :: int where
  "StatusUnauthorized = 401"

datatype AuthMethod = AuthBasic | AuthDigest

text \<open>
  \<^verbatim>\<open>net.IP\<close> is a byte slice; \<^verbatim>\<open>*net.IPNet\<close> has an address and a mask. The allow-lists
  are \<^verbatim>\<open>[]interface{}\<close>: an element is an address, a network, or anything else, which the
  type switch of \<^verbatim>\<open>ipEqualOrInRange\<close> skips.
\<close>

type_synonym IP = "nat list"

record IPNet =
  netIP :: IP
  netMask :: "nat list"

datatype ipItem = ItemIP IP | ItemIPNet IPNet | ItemOther

text \<open>
  The fields of \<^verbatim>\<open>conf.PathConf\<close> that the path manager reads. A nil \<^verbatim>\<open>Regexp\<close> and a nil
  allow-list are \<open>None\<close>; a compiled expression is kept as its pattern.
\<close>

record PathConf =
  Regexp :: "string option"
  Source :: string
  PublishUser :: string
  PublishPass :: string
  PublishIPsParsed :: "ipItem list option"
  ReadUser :: string
  ReadPass :: string
  ReadIPsParsed :: "ipItem list option"
  HTTPCallback :: string

record PlayRequestPayload =
  remote_addr :: string
  local_addr :: string
  path :: string

record PlayRequestAction =
  Close :: bool
  Target :: string

text \<open>
  An HTTP response as far as \<^verbatim>\<open>DoAuthRequest\<close> reads it: the status code and the header
  fields under their canonical names.
\<close>

record http_response =
  StatusCode :: int
  Header :: "(string \<times> string) list"

definition Header_Get :: "(string \<times> string) list \<Rightarrow> string \<Rightarrow> string" where
  "Header_Get h k = (case map_of h k of None \<Rightarrow> '''' | Some v \<Rightarrow> v)"

text \<open>
  What the path manager calls and this repository excerpt does not contain, taken as
  parameters: \<^verbatim>\<open>conf.CheckPathName\<close> (\<open>None\<close> is a nil error, \<open>Some\<close> carries the text of
  the error), \<^verbatim>\<open>Regexp.MatchString\<close>, \<^verbatim>\<open>PathConf.GetInstance\<close> (it receives the memory that
  holds the configurations and the address of its receiver, and returns the memory and the
  address of the instance), \<^verbatim>\<open>PathConf.Equal\<close>, \<^verbatim>\<open>IP.Equal\<close>, \<^verbatim>\<open>IPNet.Contains\<close>, the
  formatting of an address, \<^verbatim>\<open>json.Marshal\<close> on the payload, and \<^verbatim>\<open>http.Client.Post\<close>, which
  receives the client's \<^verbatim>\<open>CheckRedirect\<close> function, the URL, the content type and the body.
\<close>

record env =
  CheckPathName :: "string \<Rightarrow> string option"
  MatchString :: "string \<Rightarrow> string \<Rightarrow> bool"
  GetInstance :: "PathConf list \<Rightarrow> nat \<Rightarrow> string \<Rightarrow> PathConf list \<times> nat"
  Equal :: "PathConf \<Rightarrow> PathConf \<Rightarrow> bool"
  IP_Equal :: "IP \<Rightarrow> IP \<Rightarrow> bool"
  IPNet_Contains :: "IPNet \<Rightarrow> IP \<Rightarrow> bool"
  IP_String :: "IP \<Rightarrow> string"
  json_Marshal :: "PlayRequestPayload \<Rightarrow> err + string"
  Client_Post ::
    "(string \<Rightarrow> string list \<Rightarrow> err option) \<Rightarrow> string \<Rightarrow> string \<Rightarrow> string \<Rightarrow> err + http_response"

text \<open>
  A request of a read-publisher, with the fields the manager reads. A nil address and a nil
  validator function are \<open>None\<close>; \<open>Res\<close> is the identity of the reply channel.
\<close>

record request =
  PathName :: string
  IP :: "IP option"
  RemoteAddr :: string
  LocalAddr :: string
  ValidateCredentials :: "(AuthMethod list \<Rightarrow> string \<Rightarrow> string \<Rightarrow> err option) option"
  Res :: nat

section \<open>The path manager's memory\<close>

text \<open>
  Configurations and paths are reached through pointers, and the manager compares pointers.
  Both kinds of object live in a store: a list in which the address of an object is its
  index, and allocation appends. A path keeps what \<^verbatim>\<open>path.New\<close> was given.
\<close>

record Path =
  ConfName :: string
  Conf :: nat
  Name :: string

datatype reqKind = Describe | SetupPlay | Announce

text \<open>
  What the manager does to the outside: a result with an error sent on a reply channel, a
  request handed to a path (\<open>None\<close> is a nil receiver), and a path closed.
\<close>

datatype event =
    ErrReply reqKind nat err
  | OnPathMan reqKind "nat option" nat
  | PathClosed nat

text \<open>
  A Go map is a list of entries with \<open>map_of\<close> as lookup, \<open>AList.update\<close> as store and
  \<open>AList.delete\<close> as delete; a \<^verbatim>\<open>range\<close> loop visits the entries in the order of the list.
  Go leaves the order of a \<^verbatim>\<open>range\<close> over a map open: a statement about every manager is
  a statement about every list, and so about every order. The manager also holds the two
  stores and the trace of what it has done to the outside; the fields of the source that are
  only handed on to \<^verbatim>\<open>path.New\<close> (addresses, timeouts, buffer sizes, stats, parent) are
  left out.
\<close>

record PathManager =
  authMethods :: "AuthMethod list"
  confHeap :: "PathConf list"
  pathHeap :: "Path list"
  pathConfs :: "(string \<times> nat) list"
  paths :: "(string \<times> nat) list"
  trace :: "event list"

section \<open>pathman.go\<close>

fun ipEqualOrInRange :: "env \<Rightarrow> IP \<Rightarrow> ipItem list \<Rightarrow> bool" where
  "ipEqualOrInRange env ip [] = False"
| "ipEqualOrInRange env ip (ItemIP titem # ips) =
     (if IP_Equal env titem ip then True else ipEqualOrInRange env ip ips)"
| "ipEqualOrInRange env ip (ItemIPNet titem # ips) =
     (if IPNet_Contains env titem ip then True else ipEqualOrInRange env ip ips)"
| "ipEqualOrInRange env ip (ItemOther # ips) = ipEqualOrInRange env ip ips"

definition authenticate ::
  "env \<Rightarrow> PathManager \<Rightarrow> IP option \<Rightarrow>
   (AuthMethod list \<Rightarrow> string \<Rightarrow> string \<Rightarrow> err option) option \<Rightarrow>
   string \<Rightarrow> ipItem list option \<Rightarrow> string \<Rightarrow> string \<Rightarrow> err option" where
  "authenticate env pm ip validateCredentials pathName pathIPs pathUser pathPass =
     (if pathIPs \<noteq> None \<and> ip \<noteq> None \<and> \<not> ipEqualOrInRange env (the ip) (the pathIPs)
      then Some (ErrAuthCritical
             (''IP '' @ [CHR 0x27] @ IP_String env (the ip) @ [CHR 0x27] @ '' not allowed'')
             StatusUnauthorized)
      else if pathUser \<noteq> '''' \<and> validateCredentials \<noteq> None
      then (the validateCredentials) (authMethods pm) pathUser pathPass
      else None)"

text \<open>The \<^verbatim>\<open>CheckRedirect\<close> function that \<^verbatim>\<open>DoAuthRequest\<close> gives its HTTP client.\<close>

definition CheckRedirect :: "string \<Rightarrow> string list \<Rightarrow> err option" where
  "CheckRedirect req via = Some ErrUseLastResponse"

definition DoAuthRequest :: "env \<Rightarrow> PathConf \<Rightarrow> PlayRequestPayload \<Rightarrow> err + PlayRequestAction" where
  "DoAuthRequest env pathConf p =
     (let a = \<lparr>Close = False, Target = ''''\<rparr> in
      if HTTPCallback pathConf = '''' then Inr a
      else
        case json_Marshal env p of
          Inl e \<Rightarrow> Inl e
        | Inr data \<Rightarrow>
            (case Client_Post env CheckRedirect (HTTPCallback pathConf) ''application/json'' data of
               Inl e \<Rightarrow> Inl e
             | Inr resp \<Rightarrow>
                 if 200 \<le> StatusCode resp \<and> StatusCode resp \<le> 299 then Inr a
                 else if 300 \<le> StatusCode resp \<and> StatusCode resp \<le> 399 then
                   (let a' = a\<lparr>Target := Header_Get (Header resp) ''Location''\<rparr> in
                    if Target a' = ''''
                    then Inl (Errorf ''invalid location header in redirect response. closing connection'')
                    else Inr a')
                 else if 400 \<le> StatusCode resp \<and> StatusCode resp \<le> 499 then Inr (a\<lparr>Close := True\<rparr>)
                 else Inl (Errorf ''invalid redirect response. closing connection'')))"

text \<open>
  \<^verbatim>\<open>createPath\<close> returns the path that \<^verbatim>\<open>path.New\<close> allocates, and stores it nowhere.
\<close>

definition createPath :: "PathManager \<Rightarrow> string \<Rightarrow> nat \<Rightarrow> string \<Rightarrow> PathManager \<times> nat" where
  "createPath pm confName conf name =
     (pm\<lparr>pathHeap := pathHeap pm @ [\<lparr>ConfName = confName, Conf = conf, Name = name\<rparr>]\<rparr>,
      length (pathHeap pm))"

fun createPaths_range :: "(string \<times> nat) list \<Rightarrow> PathManager \<Rightarrow> PathManager" where
  "createPaths_range [] pm = pm"
| "createPaths_range ((pathName, pathConf) # rest) pm =
     createPaths_range rest
       (if map_of (paths pm) (Source (confHeap pm ! pathConf)) = None
           \<and> Regexp (confHeap pm ! pathConf) = None
        then fst (createPath pm pathName pathConf pathName)
        else pm)"

definition createPaths :: "PathManager \<Rightarrow> PathManager" where
  "createPaths pm = createPaths_range (pathConfs pm) pm"

text \<open>
  \<^verbatim>\<open>New\<close>, with the memory in which the configurations of the given map live. The other
  arguments are handed to \<^verbatim>\<open>path.New\<close> unread.
\<close>

definition New :: "PathConf list \<Rightarrow> AuthMethod list \<Rightarrow> (string \<times> nat) list \<Rightarrow> PathManager" where
  "New heap authMethods' pathConfs' =
     createPaths
       \<lparr>authMethods = authMethods', confHeap = heap, pathHeap = [],
        pathConfs = pathConfs', paths = [], trace = []\<rparr>"

fun findPathConf_range :: "env \<Rightarrow> PathConf list \<Rightarrow> string \<Rightarrow> (string \<times> nat) list \<Rightarrow> (string \<times> nat) option" where
  "findPathConf_range env h name [] = None"
| "findPathConf_range env h name ((pathName, pathConf) # rest) =
     (if Regexp (h ! pathConf) \<noteq> None \<and> MatchString env (the (Regexp (h ! pathConf))) name
      then Some (pathName, pathConf)
      else findPathConf_range env h name rest)"

text \<open>
  \<^verbatim>\<open>findPathConf\<close> returns the error, or the name of the entry and the address of the
  instance, together with the manager, whose memory \<^verbatim>\<open>GetInstance\<close> may have extended.
\<close>

definition findPathConf :: "env \<Rightarrow> PathManager \<Rightarrow> string \<Rightarrow> (err + string \<times> nat) \<times> PathManager" where
  "findPathConf env pm name =
     (case CheckPathName env name of
        Some e \<Rightarrow> (Inl (Errorf (''invalid path name: '' @ e @ '' ('' @ name @ '')'')), pm)
      | None \<Rightarrow>
          (case map_of (pathConfs pm) name of
             Some pathConf \<Rightarrow>
               (let (h, inst) = GetInstance env (confHeap pm) pathConf name
                in (Inr (name, inst), pm\<lparr>confHeap := h\<rparr>))
           | None \<Rightarrow>
               (case findPathConf_range env (confHeap pm) name (pathConfs pm) of
                  Some (pathName, pathConf) \<Rightarrow>
                    (let (h, inst) = GetInstance env (confHeap pm) pathConf name
                     in (Inr (pathName, inst), pm\<lparr>confHeap := h\<rparr>))
                | None \<Rightarrow>
                    (Inl (Errorf (''unable to find a valid configuration for path ''
                                  @ [CHR 0x27] @ name @ [CHR 0x27])), pm))))"

text \<open>\<^verbatim>\<open>req.Res <- Res{Err: err}\<close> followed by \<^verbatim>\<open>continue\<close>.\<close>

definition reply :: "reqKind \<Rightarrow> request \<Rightarrow> err \<Rightarrow> PathManager \<Rightarrow> PathManager" where
  "reply k req e pm = pm\<lparr>trace := trace pm @ [ErrReply k (Res req) e]\<rparr>"

text \<open>
  \<^verbatim>\<open>p := *pathConf; pathConf = &p; pathConf.Source = action.Target\<close>: a new object holding a
  copy, then a write through the new pointer.
\<close>

definition copyConf :: "nat \<Rightarrow> PathConf list \<Rightarrow> PathConf list \<times> nat" where
  "copyConf pathConf h = (h @ [h ! pathConf], length h)"

definition setSource :: "nat \<Rightarrow> string \<Rightarrow> PathConf list \<Rightarrow> PathConf list" where
  "setSource pathConf v h = h[pathConf := (h ! pathConf)\<lparr>Source := v\<rparr>]"

definition redirect :: "PlayRequestAction \<Rightarrow> nat \<Rightarrow> PathManager \<Rightarrow> PathManager \<times> nat" where
  "redirect action pathConf pm =
     (if Target action \<noteq> ''''
      then (let (h, p) = copyConf pathConf (confHeap pm)
            in (pm\<lparr>confHeap := setSource p (Target action) h\<rparr>, p))
      else (pm, pathConf))"

text \<open>
  The cases \<^verbatim>\<open>rpDescribe\<close> and \<^verbatim>\<open>rpSetupPlay\<close> of \<^verbatim>\<open>run\<close> are the same text up to the types
  of the result and the method of the path; \<open>k\<close> says which. \<open>routePlay\<close> is their second
  half, from the call of \<^verbatim>\<open>authenticate\<close> on.
\<close>

definition routePlay :: "env \<Rightarrow> reqKind \<Rightarrow> request \<Rightarrow> string \<Rightarrow> nat \<Rightarrow> PathManager \<Rightarrow> PathManager" where
  "routePlay env k req pathName pathConf pm =
     (let c = confHeap pm ! pathConf in
      case authenticate env pm (IP req) (ValidateCredentials req) (PathName req)
             (ReadIPsParsed c) (ReadUser c) (ReadPass c) of
        Some e \<Rightarrow> reply k req e pm
      | None \<Rightarrow>
          (let pm1 = (if map_of (paths pm) (Source c) = None
                      then (let (pm', pa) = createPath pm pathName pathConf (PathName req)
                            in pm'\<lparr>paths := AList.update (Source c) pa (paths pm')\<rparr>)
                      else pm)
           in pm1\<lparr>trace := trace pm1 @ [OnPathMan k (map_of (paths pm1) (Source c)) (Res req)]\<rparr>))"

definition rpPlay :: "env \<Rightarrow> reqKind \<Rightarrow> request \<Rightarrow> PathManager \<Rightarrow> PathManager" where
  "rpPlay env k req pm =
     (case findPathConf env pm (PathName req) of
        (Inl e, pm1) \<Rightarrow> reply k req e pm1
      | (Inr (pathName, pathConf), pm1) \<Rightarrow>
          (case DoAuthRequest env (confHeap pm1 ! pathConf)
                  \<lparr>remote_addr = RemoteAddr req, local_addr = LocalAddr req, path = PathName req\<rparr> of
             Inl e \<Rightarrow> reply k req e pm1
           | Inr action \<Rightarrow>
               if Close action then reply k req (Errorf ''not allowed'') pm1
               else (let (pm2, pathConf') = redirect action pathConf pm1
                     in routePlay env k req pathName pathConf' pm2)))"

definition rpDescribe :: "env \<Rightarrow> request \<Rightarrow> PathManager \<Rightarrow> PathManager" where
  "rpDescribe env req pm = rpPlay env Describe req pm"

definition rpSetupPlay :: "env \<Rightarrow> request \<Rightarrow> PathManager \<Rightarrow> PathManager" where
  "rpSetupPlay env req pm = rpPlay env SetupPlay req pm"

definition rpAnnounce :: "env \<Rightarrow> request \<Rightarrow> PathManager \<Rightarrow> PathManager" where
  "rpAnnounce env req pm =
     (case findPathConf env pm (PathName req) of
        (Inl e, pm1) \<Rightarrow> reply Announce req e pm1
      | (Inr (pathName, pathConf), pm1) \<Rightarrow>
          (let c = confHeap pm1 ! pathConf in
           case authenticate env pm1 (IP req) (ValidateCredentials req) (PathName req)
                  (PublishIPsParsed c) (PublishUser c) (PublishPass c) of
             Some e \<Rightarrow> reply Announce req e pm1
           | None \<Rightarrow>
               (let pm2 = (if map_of (paths pm1) (Source c) = None
                           then fst (createPath pm1 pathName pathConf (PathName req))
                           else pm1)
                in pm2\<lparr>trace := trace pm2 @
                          [OnPathMan Announce (map_of (paths pm2) (Source c)) (Res req)]\<rparr>)))"

text \<open>The five loops of the \<^verbatim>\<open>confReload\<close> case, each over the entries of the map it ranges over.\<close>

fun removeConfs :: "(string \<times> nat) list \<Rightarrow> (string \<times> nat) list \<Rightarrow> PathManager \<Rightarrow> PathManager" where
  "removeConfs [] new pm = pm"
| "removeConfs ((pathName, oldConf) # rest) new pm =
     removeConfs rest new
       (if map_of new pathName = None
        then pm\<lparr>pathConfs := AList.delete pathName (pathConfs pm)\<rparr>
        else pm)"

text \<open>
  The update loop reads \<^verbatim>\<open>pathConfs[pathName]\<close> of the incoming map. The loop before it has
  removed every name the incoming map lacks (lemma \<open>removeConfs_keys\<close> below), so the
  lookup finds an entry; the model leaves the manager as it is where it would not.
\<close>

fun updateConfs :: "env \<Rightarrow> (string \<times> nat) list \<Rightarrow> (string \<times> nat) list \<Rightarrow> PathManager \<Rightarrow> PathManager" where
  "updateConfs env [] new pm = pm"
| "updateConfs env ((pathName, oldConf) # rest) new pm =
     updateConfs env rest new
       (case map_of new pathName of
          None \<Rightarrow> pm
        | Some newConf \<Rightarrow>
            if \<not> Equal env (confHeap pm ! oldConf) (confHeap pm ! newConf)
            then pm\<lparr>pathConfs := AList.update pathName newConf (pathConfs pm)\<rparr>
            else pm)"

fun addConfs :: "(string \<times> nat) list \<Rightarrow> PathManager \<Rightarrow> PathManager" where
  "addConfs [] pm = pm"
| "addConfs ((pathName, pathConf) # rest) pm =
     addConfs rest
       (if map_of (pathConfs pm) pathName = None
        then pm\<lparr>pathConfs := AList.update pathName pathConf (pathConfs pm)\<rparr>
        else pm)"

fun removePaths :: "(string \<times> nat) list \<Rightarrow> PathManager \<Rightarrow> PathManager" where
  "removePaths [] pm = pm"
| "removePaths ((source, pa) # rest) pm =
     removePaths rest
       (if (case map_of (pathConfs pm) (ConfName (pathHeap pm ! pa)) of
              None \<Rightarrow> True
            | Some pathConf \<Rightarrow> pathConf \<noteq> Conf (pathHeap pm ! pa))
        then pm\<lparr>paths := AList.delete source (paths pm), trace := trace pm @ [PathClosed pa]\<rparr>
        else pm)"

definition confReload :: "env \<Rightarrow> (string \<times> nat) list \<Rightarrow> PathManager \<Rightarrow> PathManager" where
  "confReload env new pm =
     (let pm1 = removeConfs (pathConfs pm) new pm;
          pm2 = updateConfs env (pathConfs pm1) new pm1;
          pm3 = addConfs new pm2;
          pm4 = removePaths (paths pm3) pm3
      in createPaths pm4)"

definition pathClose :: "nat \<Rightarrow> PathManager \<Rightarrow> PathManager" where
  "pathClose pa pm =
     (let source = Source (confHeap pm ! Conf (pathHeap pm ! pa)) in
      case map_of (paths pm) source of
        None \<Rightarrow> pm
      | Some pmpa \<Rightarrow>
          if pmpa \<noteq> pa then pm
          else pm\<lparr>paths := AList.delete source (paths pm), trace := trace pm @ [PathClosed pa]\<rparr>)"

text \<open>What \<^verbatim>\<open>run\<close> receives in its \<^verbatim>\<open>select\<close>, and one turn of its loop.\<close>

datatype msg =
    ConfReloadMsg "(string \<times> nat) list"
  | PathCloseMsg nat
  | DescribeMsg request
  | SetupPlayMsg request
  | AnnounceMsg request

fun run_select :: "env \<Rightarrow> msg \<Rightarrow> PathManager \<Rightarrow> PathManager" where
  "run_select env (ConfReloadMsg new) pm = confReload env new pm"
| "run_select env (PathCloseMsg pa) pm = pathClose pa pm"
| "run_select env (DescribeMsg req) pm = rpDescribe env req pm"
| "run_select env (SetupPlayMsg req) pm = rpSetupPlay env req pm"
| "run_select env (AnnounceMsg req) pm = rpAnnounce env req pm"

text \<open>\<^verbatim>\<open>run\<close> on the messages that arrive before the context is cancelled.\<close>

fun run :: "env \<Rightarrow> msg list \<Rightarrow> PathManager \<Rightarrow> PathManager" where
  "run env [] pm = pm"
| "run env (m # ms) pm = run env ms (run_select env m pm)"

section \<open>metrics.go\<close>

text \<open>
  The \<^verbatim>\<open>http.Server\<close> of \<^verbatim>\<open>Metrics\<close>, as far as \<^verbatim>\<open>run\<close> and \<^verbatim>\<open>Close\<close> depend on it. By the
  documentation of \<^verbatim>\<open>net/http\<close>, \<^verbatim>\<open>ListenAndServe\<close> always returns an error, and after
  \<^verbatim>\<open>Shutdown\<close> that error is \<^verbatim>\<open>ErrServerClosed\<close>; the second argument is the error with
  which listening or serving ends on a server that has not been shut down.
\<close>

record Server =
  inShutdown :: bool

definition Server_Shutdown :: "Server \<Rightarrow> Server" where
  "Server_Shutdown srv = srv\<lparr>inShutdown := True\<rparr>"

definition Server_ListenAndServe :: "Server \<Rightarrow> err \<Rightarrow> err" where
  "Server_ListenAndServe srv failure = (if inShutdown srv then ErrServerClosed else failure)"

record Metrics =
  server :: Server

datatype outcome = Returned | Panicked err

definition Metrics_Close :: "Metrics \<Rightarrow> Metrics" where
  "Metrics_Close m = m\<lparr>server := Server_Shutdown (server m)\<rparr>"

definition Metrics_run :: "Metrics \<Rightarrow> err \<Rightarrow> outcome" where
  "Metrics_run m failure =
     (let err = Server_ListenAndServe (server m) failure
      in if err \<noteq> ErrServerClosed then Panicked err else Returned)"

section \<open>An environment and a configuration for the examples\<close>

text \<open>
  A small auth delegate that answers by URL, a matcher that takes a pattern for a prefix, an
  instantiation that copies an entry with a regular expression, structural equality of
  configurations, and addresses compared byte by byte, with networks given by a mask.
\<close>

definition exampleDelegate :: "string \<Rightarrow> err + http_response" where
  "exampleDelegate url =
     (if url = ''http://auth/allow'' then Inr \<lparr>StatusCode = 200, Header = []\<rparr>
      else if url = ''http://auth/redirect''
        then Inr \<lparr>StatusCode = 302, Header = [(''Location'', ''rtsp://upstream/foo'')]\<rparr>
      else if url = ''http://auth/nolocation'' then Inr \<lparr>StatusCode = 302, Header = []\<rparr>
      else if url = ''http://auth/deny'' then Inr \<lparr>StatusCode = 403, Header = []\<rparr>
      else if url = ''http://auth/broken'' then Inr \<lparr>StatusCode = 500, Header = []\<rparr>
      else Inl (ErrExternal ''connection refused''))"

definition exampleContains :: "IPNet \<Rightarrow> IP \<Rightarrow> bool" where
  "exampleContains n ip =
     (length ip = length (netIP n) \<and> length ip = length (netMask n) \<and>
      map2 (AND) ip (netMask n) = map2 (AND) (netIP n) (netMask n))"

definition exampleEnv :: env where
  "exampleEnv =
     \<lparr>CheckPathName = (\<lambda>name. if name = '''' then Some ''cannot be empty'' else None),
      MatchString = (\<lambda>pattern name. take (length pattern) name = pattern),
      GetInstance = (\<lambda>h pconf name. if Regexp (h ! pconf) = None then (h, pconf) else (h @ [h ! pconf], length h)),
      Equal = (\<lambda>a b. a = b),
      IP_Equal = (\<lambda>a b. a = b),
      IPNet_Contains = exampleContains,
      IP_String = (\<lambda>ip. if ip = [192, 168, 1, 5] then ''192.168.1.5'' else ''10.1.2.3''),
      json_Marshal = (\<lambda>p. Inr (remote_addr p @ '','' @ local_addr p @ '','' @ path p)),
      Client_Post = (\<lambda>check url contentType body. exampleDelegate url)\<rparr>"

text \<open>
  One literal entry \<open>cam1\<close> that accepts a publisher, and a request for it from
  192.168.1.5 without credentials, replied to on channel 7.
\<close>

definition cam1 :: PathConf where
  "cam1 =
     \<lparr>Regexp = None, Source = ''publisher'', PublishUser = '''', PublishPass = '''',
      PublishIPsParsed = None, ReadUser = '''', ReadPass = '''', ReadIPsParsed = None,
      HTTPCallback = ''''\<rparr>"

definition cam1Req :: request where
  "cam1Req =
     \<lparr>PathName = ''cam1'', IP = Some [192, 168, 1, 5], RemoteAddr = ''192.168.1.5:5000'',
      LocalAddr = ''10.0.0.1:554'', ValidateCredentials = None, Res = 7\<rparr>"

definition net10 :: IPNet where
  "net10 = \<lparr>netIP = [10, 0, 0, 0], netMask = [255, 0, 0, 0]\<rparr>"

text \<open>The manager built for one entry \<open>cam1\<close> with a given configuration.\<close>

definition oneConf :: "PathConf \<Rightarrow> PathManager" where
  "oneConf c = New [c] [] [(''cam1'', 0)]"

text \<open>
  \<open>cam1\<close> with a callback that redirects to \<open>rtsp://upstream/foo\<close>, and \<open>cam1\<close>
  readable from 10.0.0.0/8 only.
\<close>

definition cam1Redirect :: PathConf where
  "cam1Redirect = cam1\<lparr>HTTPCallback := ''http://auth/redirect''\<rparr>"

definition cam1Net10 :: PathConf where
  "cam1Net10 = cam1\<lparr>ReadIPsParsed := Some [ItemIPNet net10]\<rparr>"

text \<open>The same, with a callback that denies.\<close>

definition cam1Net10Deny :: PathConf where
  "cam1Net10Deny = cam1Net10\<lparr>HTTPCallback := ''http://auth/deny''\<rparr>"

text \<open>
  The manager after a Describe of \<open>cam1\<close>, without and with a redirect, at the moment a
  reload arrives: the program has read its configuration again, which put a new object,
  equal to the stored one, into memory.
\<close>

definition afterPlain :: PathManager where
  "afterPlain =
     (rpDescribe exampleEnv cam1Req (oneConf cam1))
       \<lparr>confHeap := confHeap (rpDescribe exampleEnv cam1Req (oneConf cam1)) @ [cam1]\<rparr>"

definition afterRedirect :: PathManager where
  "afterRedirect =
     (rpDescribe exampleEnv cam1Req (oneConf cam1Redirect))
       \<lparr>confHeap := confHeap (rpDescribe exampleEnv cam1Req (oneConf cam1Redirect)) @ [cam1Redirect]\<rparr>"

text \<open>
  The manager just built for \<open>cam1\<close>, at the moment a reload arrives with a new object
  equal to the stored one.
\<close>

definition freshAtReload :: PathManager where
  "freshAtReload = (oneConf cam1)\<lparr>confHeap := confHeap (oneConf cam1) @ [cam1]\<rparr>"




section \<open>Properties, in the words of the specification\<close>

text \<open>
  The manager answered a request with one error on its reply channel and did nothing else
  that touches paths: the trace grew by that reply, the live path set and the paths in
  memory are what they were.
\<close>

definition errorReplyOnly :: "reqKind \<Rightarrow> request \<Rightarrow> err \<Rightarrow> PathManager \<Rightarrow> PathManager \<Rightarrow> bool" where
  "errorReplyOnly k req e pm pm' \<longleftrightarrow>
     trace pm' = trace pm @ [ErrReply k (Res req) e] \<and>
     paths pm' = paths pm \<and>
     pathHeap pm' = pathHeap pm"

text \<open>An address is equal to a listed address or contained in a listed network.\<close>

definition ipListed :: "env \<Rightarrow> IP \<Rightarrow> ipItem list \<Rightarrow> bool" where
  "ipListed env ip ips =
     list_ex (\<lambda>item. case item of
                        ItemIP a \<Rightarrow> IP_Equal env a ip
                      | ItemIPNet n \<Rightarrow> IPNet_Contains env n ip
                      | ItemOther \<Rightarrow> False) ips"

text \<open>The bytes of an address that may be nil: a nil slice has no bytes.\<close>

definition ipBytes :: "IP option \<Rightarrow> IP" where
  "ipBytes ip = (case ip of None \<Rightarrow> [] | Some a \<Rightarrow> a)"

text \<open>
  The incoming map has the keys of the stored one, and under each key a configuration that
  \<^verbatim>\<open>Equal\<close> finds equal to the stored one.
\<close>

definition sameConfs :: "env \<Rightarrow> PathConf list \<Rightarrow> (string \<times> nat) list \<Rightarrow> (string \<times> nat) list \<Rightarrow> bool" where
  "sameConfs env h new old \<longleftrightarrow>
     list_all (\<lambda>(pathName, oldConf).
                 case map_of new pathName of
                   None \<Rightarrow> False
                 | Some newConf \<Rightarrow> Equal env (h ! oldConf) (h ! newConf)) old \<and>
     list_all (\<lambda>(pathName, newConf). map_of old pathName \<noteq> None) new"

text \<open>The configuration of a path is the object stored under the path's configuration name.\<close>

definition confIsStored :: "PathManager \<Rightarrow> nat \<Rightarrow> bool" where
  "confIsStored pm pa \<longleftrightarrow>
     map_of (pathConfs pm) (ConfName (pathHeap pm ! pa)) = Some (Conf (pathHeap pm ! pa))"


text \<open>
  After a redirect to \<open>target\<close> the manager \<open>pm'\<close> is what the second half of the handler
  gives from the address of a new object, a copy of the resolved configuration with the source
  replaced; the stored map is the one of \<open>pm\<close>, and every object that existed when the
  redirect was applied (\<open>pm1\<close> is the manager after the resolution) is unchanged.
\<close>

definition redirectedOnCopy ::
  "env \<Rightarrow> reqKind \<Rightarrow> request \<Rightarrow> string \<Rightarrow> nat \<Rightarrow> string \<Rightarrow> PathManager \<Rightarrow> PathManager \<Rightarrow> PathManager \<Rightarrow> bool" where
  "redirectedOnCopy env k req pathName pathConf target pm pm1 pm' \<longleftrightarrow>
     pm' = routePlay env k req pathName (length (confHeap pm1))
             (pm1\<lparr>confHeap := confHeap pm1 @ [(confHeap pm1 ! pathConf)\<lparr>Source := target\<rparr>]\<rparr>)
     \<and> confHeap pm' = confHeap pm1 @ [(confHeap pm1 ! pathConf)\<lparr>Source := target\<rparr>]
     \<and> pathConfs pm' = pathConfs pm
     \<and> (\<forall>a. a < length (confHeap pm1) \<longrightarrow> confHeap pm' ! a = confHeap pm1 ! a)"

section \<open>What the handlers leave alone\<close>

lemma createPath_frame:
  "paths (fst (createPath pm confName conf name)) = paths pm"
  "pathConfs (fst (createPath pm confName conf name)) = pathConfs pm"
  "confHeap (fst (createPath pm confName conf name)) = confHeap pm"
  "trace (fst (createPath pm confName conf name)) = trace pm"
  "authMethods (fst (createPath pm confName conf name)) = authMethods pm"
  by (simp_all add: createPath_def)

lemma createPaths_range_frame:
  "paths (createPaths_range xs pm) = paths pm \<and>
   pathConfs (createPaths_range xs pm) = pathConfs pm \<and>
   confHeap (createPaths_range xs pm) = confHeap pm \<and>
   trace (createPaths_range xs pm) = trace pm \<and>
   authMethods (createPaths_range xs pm) = authMethods pm"
proof (induction xs arbitrary: pm)
  case Nil
  then show ?case by simp
next
  case (Cons x xs)
  obtain pathName pathConf where x: "x = (pathName, pathConf)"
    by (cases x)
  show ?case
    unfolding x createPaths_range.simps
    by (simp add: Cons.IH createPath_frame)
qed

lemma createPaths_frame:
  "paths (createPaths pm) = paths pm"
  "pathConfs (createPaths pm) = pathConfs pm"
  "confHeap (createPaths pm) = confHeap pm"
  "trace (createPaths pm) = trace pm"
  by (simp_all add: createPaths_def createPaths_range_frame)

lemma findPathConf_frame:
  assumes "findPathConf env pm name = (r, pm1)"
  shows "paths pm1 = paths pm" and "pathHeap pm1 = pathHeap pm" and "trace pm1 = trace pm"
    and "pathConfs pm1 = pathConfs pm" and "authMethods pm1 = authMethods pm"
  using assms
  by (auto simp: findPathConf_def split: option.splits prod.splits)

lemma findPathConf_error_frame:
  assumes "findPathConf env pm name = (Inl e, pm1)"
  shows "pm1 = pm"
  using assms
  by (auto simp: findPathConf_def split: option.splits prod.splits)

lemma redirect_frame:
  assumes "redirect action pathConf pm = (pm2, pathConf')"
  shows "paths pm2 = paths pm" and "pathHeap pm2 = pathHeap pm" and "trace pm2 = trace pm"
    and "pathConfs pm2 = pathConfs pm" and "authMethods pm2 = authMethods pm"
  using assms
  by (auto simp: redirect_def copyConf_def split: if_splits)

section \<open>The manager built for \<open>cam1\<close>\<close>

lemma New_cam1:
  "New [cam1] [] [(''cam1'', 0)] =
     \<lparr>authMethods = [], confHeap = [cam1],
      pathHeap = [\<lparr>ConfName = ''cam1'', Conf = 0, Name = ''cam1''\<rparr>],
      pathConfs = [(''cam1'', 0)], paths = [], trace = []\<rparr>"
  by (simp add: New_def createPaths_def createPath_def cam1_def)

lemma rpAnnounce_cam1:
  "rpAnnounce exampleEnv cam1Req (New [cam1] [] [(''cam1'', 0)]) =
     \<lparr>authMethods = [], confHeap = [cam1],
      pathHeap = [\<lparr>ConfName = ''cam1'', Conf = 0, Name = ''cam1''\<rparr>,
                  \<lparr>ConfName = ''cam1'', Conf = 0, Name = ''cam1''\<rparr>],
      pathConfs = [(''cam1'', 0)], paths = [], trace = [OnPathMan Announce None 7]\<rparr>"
  unfolding New_cam1
  by (simp add: rpAnnounce_def findPathConf_def exampleEnv_def cam1Req_def authenticate_def
      createPath_def cam1_def)

lemma rpAnnounce_paths: "paths (rpAnnounce env req pm) = paths pm"
proof (cases "findPathConf env pm (PathName req)")
  case (Pair r pm1)
  have p1: "paths pm1 = paths pm"
    using Pair by (rule findPathConf_frame)
  show ?thesis
  proof (cases r)
    case (Inl e)
    then show ?thesis
      using Pair p1 by (simp add: rpAnnounce_def reply_def)
  next
    case (Inr b)
    then show ?thesis
      using Pair p1
      by (cases b) (simp add: rpAnnounce_def reply_def Let_def createPath_frame split: option.splits)
  qed
qed

section \<open>The scan of the regular expressions\<close>




section \<open>The steps of a Describe or SetupPlay\<close>

lemma reply_frame:
  "trace (reply k req e pm) = trace pm @ [ErrReply k (Res req) e]"
  "paths (reply k req e pm) = paths pm"
  "pathHeap (reply k req e pm) = pathHeap pm"
  "pathConfs (reply k req e pm) = pathConfs pm"
  "confHeap (reply k req e pm) = confHeap pm"
  by (simp_all add: reply_def)

lemma rpPlay_resolve_error:
  assumes "findPathConf env pm (PathName req) = (Inl e, pm1)"
  shows "rpPlay env k req pm = reply k req e pm"
  using assms findPathConf_error_frame [OF assms]
  by (simp add: rpPlay_def)

lemma rpPlay_callback_error:
  assumes "findPathConf env pm (PathName req) = (Inr (pathName, pathConf), pm1)"
    and "DoAuthRequest env (confHeap pm1 ! pathConf)
           \<lparr>remote_addr = RemoteAddr req, local_addr = LocalAddr req, path = PathName req\<rparr> = Inl e"
  shows "rpPlay env k req pm = reply k req e pm1"
  using assms by (simp add: rpPlay_def)

lemma rpPlay_denied:
  assumes "findPathConf env pm (PathName req) = (Inr (pathName, pathConf), pm1)"
    and "DoAuthRequest env (confHeap pm1 ! pathConf)
           \<lparr>remote_addr = RemoteAddr req, local_addr = LocalAddr req, path = PathName req\<rparr> = Inr action"
    and "Close action"
  shows "rpPlay env k req pm = reply k req (Errorf ''not allowed'') pm1"
  using assms by (simp add: rpPlay_def)

lemma rpPlay_routed:
  assumes "findPathConf env pm (PathName req) = (Inr (pathName, pathConf), pm1)"
    and "DoAuthRequest env (confHeap pm1 ! pathConf)
           \<lparr>remote_addr = RemoteAddr req, local_addr = LocalAddr req, path = PathName req\<rparr> = Inr action"
    and "\<not> Close action"
    and "redirect action pathConf pm1 = (pm2, pathConf')"
  shows "rpPlay env k req pm = routePlay env k req pathName pathConf' pm2"
  using assms by (simp add: rpPlay_def)

lemma routePlay_auth_error:
  assumes "authenticate env pm (IP req) (ValidateCredentials req) (PathName req)
             (ReadIPsParsed (confHeap pm ! pathConf)) (ReadUser (confHeap pm ! pathConf))
             (ReadPass (confHeap pm ! pathConf)) = Some e"
  shows "routePlay env k req pathName pathConf pm = reply k req e pm"
  using assms by (simp add: routePlay_def Let_def)

lemma routePlay_frame:
  "confHeap (routePlay env k req pathName pathConf pm) = confHeap pm"
  "pathConfs (routePlay env k req pathName pathConf pm) = pathConfs pm"
  by (simp_all add: routePlay_def Let_def reply_def createPath_def split: option.splits)

lemma errorReplyOnly_reply:
  assumes "trace pm1 = trace pm" and "paths pm1 = paths pm" and "pathHeap pm1 = pathHeap pm"
  shows "errorReplyOnly k req e pm (reply k req e pm1)"
  using assms by (simp add: errorReplyOnly_def reply_frame)

lemma DoAuthRequest_403:
  assumes "HTTPCallback pathConf \<noteq> ''''"
    and "json_Marshal env p = Inr data"
    and "Client_Post env CheckRedirect (HTTPCallback pathConf) ''application/json'' data = Inr resp"
    and "StatusCode resp = 403"
  shows "DoAuthRequest env pathConf p = Inr \<lparr>Close = True, Target = ''''\<rparr>"
  using assms by (simp add: DoAuthRequest_def Let_def)

section \<open>Redirect and the address gate\<close>

lemma DoAuthRequest_Target_not_Close:
  assumes "DoAuthRequest env c p = Inr action" and "Target action \<noteq> ''''"
  shows "\<not> Close action"
  using assms
  by (auto simp: DoAuthRequest_def Let_def split: if_splits sum.splits)

lemma redirect_copy:
  assumes "Target action \<noteq> ''''"
  shows "redirect action pathConf pm =
     (pm\<lparr>confHeap := confHeap pm @ [(confHeap pm ! pathConf)\<lparr>Source := Target action\<rparr>]\<rparr>,
      length (confHeap pm))"
  using assms by (simp add: redirect_def copyConf_def setSource_def)

lemma redirect_keeps_read_fields:
  assumes "redirect action pathConf pm = (pm2, pathConf')"
  shows "ReadIPsParsed (confHeap pm2 ! pathConf') = ReadIPsParsed (confHeap pm ! pathConf)"
    and "ReadUser (confHeap pm2 ! pathConf') = ReadUser (confHeap pm ! pathConf)"
    and "ReadPass (confHeap pm2 ! pathConf') = ReadPass (confHeap pm ! pathConf)"
  using assms
  by (auto simp: redirect_def copyConf_def setSource_def split: if_splits)

lemma ipEqualOrInRange_ipListed: "ipEqualOrInRange env ip ips = ipListed env ip ips"
  by (induction env ip ips rule: ipEqualOrInRange.induct) (simp_all add: ipListed_def)

lemma rpPlay_redirected:
  assumes fp: "findPathConf env pm (PathName req) = (Inr (pathName, pathConf), pm1)"
    and da: "DoAuthRequest env (confHeap pm1 ! pathConf)
               \<lparr>remote_addr = RemoteAddr req, local_addr = LocalAddr req, path = PathName req\<rparr> = Inr action"
    and tg: "Target action \<noteq> ''''"
  shows "redirectedOnCopy env k req pathName pathConf (Target action) pm pm1 (rpPlay env k req pm)"
proof -
  let ?pm2 = "pm1\<lparr>confHeap := confHeap pm1 @ [(confHeap pm1 ! pathConf)\<lparr>Source := Target action\<rparr>]\<rparr>"
  have nc: "\<not> Close action"
    using da tg by (rule DoAuthRequest_Target_not_Close)
  have eq: "rpPlay env k req pm = routePlay env k req pathName (length (confHeap pm1)) ?pm2"
    using rpPlay_routed [OF fp da nc redirect_copy [OF tg]] .
  have h: "confHeap (rpPlay env k req pm) =
      confHeap pm1 @ [(confHeap pm1 ! pathConf)\<lparr>Source := Target action\<rparr>]"
    unfolding eq by (simp add: routePlay_frame)
  have c: "pathConfs (rpPlay env k req pm) = pathConfs pm"
    unfolding eq using findPathConf_frame(4) [OF fp] by (simp add: routePlay_frame)
  show ?thesis
    unfolding redirectedOnCopy_def
    using eq h c by (simp add: nth_append)
qed

lemma authenticate_ip_rejected:
  assumes "\<not> ipListed env ip ips"
  shows "authenticate env pm (Some ip) v n (Some ips) u p =
     Some (ErrAuthCritical (''IP '' @ [CHR 0x27] @ IP_String env ip @ [CHR 0x27] @ '' not allowed'') 401)"
  using assms by (simp add: authenticate_def ipEqualOrInRange_ipListed StatusUnauthorized_def)

lemma authenticate_ip_passes:
  assumes "ipListed env ip ips"
  shows "authenticate env pm (Some ip) v n (Some ips) u p = authenticate env pm (Some ip) v n None u p"
  using assms by (simp add: authenticate_def ipEqualOrInRange_ipListed)

lemma rpPlay_ip_rejected:
  assumes fp: "findPathConf env pm (PathName req) = (Inr (pathName, pathConf), pm1)"
    and da: "DoAuthRequest env (confHeap pm1 ! pathConf)
               \<lparr>remote_addr = RemoteAddr req, local_addr = LocalAddr req, path = PathName req\<rparr> = Inr action"
    and nc: "\<not> Close action"
    and ips: "ReadIPsParsed (confHeap pm1 ! pathConf) = Some ips"
    and ip: "IP req = Some ip"
    and nl: "\<not> ipListed env ip ips"
  shows "errorReplyOnly k req
           (ErrAuthCritical (''IP '' @ [CHR 0x27] @ IP_String env ip @ [CHR 0x27] @ '' not allowed'') 401)
           pm (rpPlay env k req pm)"
proof -
  obtain pm2 pathConf' where rd: "redirect action pathConf pm1 = (pm2, pathConf')"
    by (cases "redirect action pathConf pm1")
  have "ReadIPsParsed (confHeap pm2 ! pathConf') = Some ips"
    using redirect_keeps_read_fields(1) [OF rd] ips by simp
  then have au: "authenticate env pm2 (IP req) (ValidateCredentials req) (PathName req)
             (ReadIPsParsed (confHeap pm2 ! pathConf')) (ReadUser (confHeap pm2 ! pathConf'))
             (ReadPass (confHeap pm2 ! pathConf')) =
           Some (ErrAuthCritical (''IP '' @ [CHR 0x27] @ IP_String env ip @ [CHR 0x27] @ '' not allowed'') 401)"
    using ip authenticate_ip_rejected [OF nl] by simp
  have "trace pm2 = trace pm" "paths pm2 = paths pm" "pathHeap pm2 = pathHeap pm"
    using findPathConf_frame [OF fp] redirect_frame [OF rd] by simp_all
  then show ?thesis
    unfolding rpPlay_routed [OF fp da nc rd] routePlay_auth_error [OF au]
    by (rule errorReplyOnly_reply)
qed

section \<open>The loops of a reload\<close>

text \<open>
  After the first loop every name left in the stored map is a name of the incoming map, so
  the lookup in the second loop always finds an entry.
\<close>

lemma keys_delete: "fst ` set (AList.delete k al) = fst ` set al - {k}"
proof -
  have "set (map fst (AList.delete k al)) = set (map fst al) - {k}"
    by (simp add: AList.delete_keys)
  then show ?thesis
    by (simp only: set_map)
qed

lemma removeConfs_keys_subset:
  "fst ` set (pathConfs (removeConfs xs new pm)) \<subseteq>
     fst ` set (pathConfs pm) - {k \<in> fst ` set xs. map_of new k = None}"
proof (induction xs arbitrary: pm)
  case Nil
  then show ?case by simp
next
  case (Cons x xs)
  obtain pathName oldConf where x: "x = (pathName, oldConf)"
    by (cases x)
  have keys: "fst ` set (x # xs) = insert pathName (fst ` set xs)"
    unfolding x by simp
  show ?case
  proof (cases "map_of new pathName = None")
    case True
    let ?pm' = "pm\<lparr>pathConfs := AList.delete pathName (pathConfs pm)\<rparr>"
    have step: "removeConfs (x # xs) new pm = removeConfs xs new ?pm'"
      unfolding x using True by simp
    have "fst ` set (pathConfs ?pm') = fst ` set (pathConfs pm) - {pathName}"
      by (simp add: keys_delete)
    with Cons.IH [of ?pm'] True show ?thesis
      unfolding step keys by blast
  next
    case False
    have step: "removeConfs (x # xs) new pm = removeConfs xs new pm"
      unfolding x using False by (simp del: not_None_eq)
    from Cons.IH [of pm] False show ?thesis
      unfolding step keys by blast
  qed
qed

lemma removeConfs_keys:
  "list_all (\<lambda>(pathName, c). map_of new pathName \<noteq> None)
     (pathConfs (removeConfs (pathConfs pm) new pm))"
  unfolding list_all_iff split_def
proof (rule ballI)
  fix e
  assume "e \<in> set (pathConfs (removeConfs (pathConfs pm) new pm))"
  then have "fst e \<in> fst ` set (pathConfs (removeConfs (pathConfs pm) new pm))"
    by (rule imageI)
  then have "fst e \<in> fst ` set (pathConfs pm) - {k \<in> fst ` set (pathConfs pm). map_of new k = None}"
    using removeConfs_keys_subset [of "pathConfs pm" new pm] by (rule rev_subsetD)
  then show "map_of new (fst e) \<noteq> None"
    by (simp del: not_None_eq)
qed

section \<open>A reload that brings the stored configurations again\<close>

lemma removeConfs_same:
  "list_all (\<lambda>(pathName, c). map_of new pathName \<noteq> None) xs \<Longrightarrow> removeConfs xs new pm = pm"
  by (induction xs) auto

lemma updateConfs_same:
  "list_all (\<lambda>(pathName, oldConf).
               case map_of new pathName of
                 None \<Rightarrow> False
               | Some newConf \<Rightarrow> Equal env (confHeap pm ! oldConf) (confHeap pm ! newConf)) xs \<Longrightarrow>
   updateConfs env xs new pm = pm"
  by (induction xs) (auto split: option.splits)

lemma addConfs_same:
  "list_all (\<lambda>(pathName, c). map_of (pathConfs pm) pathName \<noteq> None) xs \<Longrightarrow> addConfs xs pm = pm"
  by (induction xs) auto

lemma sameConfs_keys:
  assumes "sameConfs env h new old"
  shows "list_all (\<lambda>(pathName, c). map_of new pathName \<noteq> None) old"
  using assms
  by (auto simp: sameConfs_def list_all_iff split: option.splits)

lemma confReload_same:
  assumes "sameConfs env (confHeap pm) new (pathConfs pm)"
  shows "confReload env new pm = createPaths (removePaths (paths pm) pm)"
proof -
  have 1: "removeConfs (pathConfs pm) new pm = pm"
    using sameConfs_keys [OF assms] by (rule removeConfs_same)
  have 2: "updateConfs env (pathConfs pm) new pm = pm"
    using assms by (intro updateConfs_same) (simp add: sameConfs_def)
  have 3: "addConfs new pm = pm"
    using assms by (intro addConfs_same) (simp add: sameConfs_def)
  show ?thesis
    by (simp add: confReload_def 1 2 3)
qed

lemma removePaths_frame:
  "pathConfs (removePaths xs pm) = pathConfs pm \<and>
   pathHeap (removePaths xs pm) = pathHeap pm \<and>
   confHeap (removePaths xs pm) = confHeap pm"
  by (induction xs arbitrary: pm) auto

lemma removePaths_test:
  "(case map_of (pathConfs pm) (ConfName (pathHeap pm ! pa)) of
      None \<Rightarrow> True
    | Some pathConf \<Rightarrow> pathConf \<noteq> Conf (pathHeap pm ! pa)) \<longleftrightarrow> \<not> confIsStored pm pa"
  by (auto simp: confIsStored_def split: option.splits)

lemma confIsStored_cong:
  "pathConfs pm' = pathConfs pm \<Longrightarrow> pathHeap pm' = pathHeap pm \<Longrightarrow>
   confIsStored pm' pa = confIsStored pm pa"
  by (simp add: confIsStored_def)

lemma removePaths_trace:
  "trace (removePaths xs pm) =
     trace pm @ map (\<lambda>(source, pa). PathClosed pa) (filter (\<lambda>(source, pa). \<not> confIsStored pm pa) xs)"
proof (induction xs arbitrary: pm)
  case Nil
  then show ?case by simp
next
  case (Cons x xs)
  obtain source pa where x: "x = (source, pa)"
    by (cases x)
  let ?pm' = "pm\<lparr>paths := AList.delete source (paths pm), trace := trace pm @ [PathClosed pa]\<rparr>"
  have same: "\<And>ps t q. confIsStored (pm\<lparr>paths := ps, trace := t\<rparr>) q = confIsStored pm q"
    by (simp add: confIsStored_def)
  show ?case
  proof (cases "confIsStored pm pa")
    case True
    then show ?thesis
      unfolding x removePaths.simps removePaths_test by (simp add: Cons.IH)
  next
    case False
    then show ?thesis
      unfolding x removePaths.simps removePaths_test by (simp add: Cons.IH same)
  qed
qed

lemma removePaths_paths:
  "paths (removePaths xs pm) =
     filter (\<lambda>(source, pa). \<not> list_ex (\<lambda>(s, q). s = source \<and> \<not> confIsStored pm q) xs) (paths pm)"
proof (induction xs arbitrary: pm)
  case Nil
  then show ?case by simp
next
  case (Cons x xs)
  obtain source pa where x: "x = (source, pa)"
    by (cases x)
  let ?pm' = "pm\<lparr>paths := AList.delete source (paths pm), trace := trace pm @ [PathClosed pa]\<rparr>"
  have same: "\<And>ps t q. confIsStored (pm\<lparr>paths := ps, trace := t\<rparr>) q = confIsStored pm q"
    by (simp add: confIsStored_def)
  show ?case
  proof (cases "confIsStored pm pa")
    case True
    then show ?thesis
      unfolding x removePaths.simps removePaths_test by (simp add: Cons.IH)
  next
    case False
    have d: "AList.delete source (paths pm) = filter (\<lambda>e. source \<noteq> fst e) (paths pm)"
      by (simp add: AList.delete_eq split_def)
    have "paths (removePaths xs ?pm') =
        filter (\<lambda>(source', pa'). \<not> list_ex (\<lambda>(s, q). s = source' \<and> \<not> confIsStored pm q) xs)
          (filter (\<lambda>e. source \<noteq> fst e) (paths pm))"
      by (simp add: Cons.IH same d)
    also have "\<dots> = filter (\<lambda>e. source \<noteq> fst e \<and>
        \<not> list_ex (\<lambda>(s, q). s = fst e \<and> \<not> confIsStored pm q) xs) (paths pm)"
      by (simp add: split_def)
    also have "\<dots> = filter (\<lambda>(source', pa').
        \<not> list_ex (\<lambda>(s, q). s = source' \<and> \<not> confIsStored pm q) ((source, pa) # xs)) (paths pm)"
    proof (rule filter_cong [OF refl])
      fix e
      assume "e \<in> set (paths pm)"
      show "(source \<noteq> fst e \<and> \<not> list_ex (\<lambda>(s, q). s = fst e \<and> \<not> confIsStored pm q) xs) =
          (case e of (source', pa') \<Rightarrow>
             \<not> list_ex (\<lambda>(s, q). s = source' \<and> \<not> confIsStored pm q) ((source, pa) # xs))"
        using False by (cases e) auto
    qed
    finally show ?thesis
      unfolding x removePaths.simps removePaths_test using False by simp
  qed
qed

lemma removePaths_paths_distinct:
  assumes d: "distinct (map fst (paths pm))"
  shows "paths (removePaths (paths pm) pm) = filter (\<lambda>(source, pa). confIsStored pm pa) (paths pm)"
  unfolding removePaths_paths
proof (rule filter_cong [OF refl])
  fix e
  assume m: "e \<in> set (paths pm)"
  obtain source pa where e: "e = (source, pa)"
    by (cases e)
  have m': "(source, pa) \<in> set (paths pm)"
    using m e by simp
  have u: "q = pa" if "(source, q) \<in> set (paths pm)" for q
    using d that m' by (rule eq_key_imp_eq_value)
  have "list_ex (\<lambda>(s, q). s = source \<and> \<not> confIsStored pm q) (paths pm) \<longleftrightarrow> \<not> confIsStored pm pa"
  proof
    assume "list_ex (\<lambda>(s, q). s = source \<and> \<not> confIsStored pm q) (paths pm)"
    then obtain x where x: "x \<in> set (paths pm)" "fst x = source" "\<not> confIsStored pm (snd x)"
      unfolding list_ex_iff split_def by blast
    have "(source, snd x) = x"
      unfolding x(2) [symmetric] by simp
    then have "(source, snd x) \<in> set (paths pm)"
      using x(1) by simp
    then have "snd x = pa"
      by (rule u)
    with x(3) show "\<not> confIsStored pm pa"
      by simp
  next
    assume "\<not> confIsStored pm pa"
    then have "\<exists>x\<in>set (paths pm). fst x = source \<and> \<not> confIsStored pm (snd x)"
      using m' by (intro bexI [of _ "(source, pa)"]) simp_all
    then show "list_ex (\<lambda>(s, q). s = source \<and> \<not> confIsStored pm q) (paths pm)"
      unfolding list_ex_iff split_def .
  qed
  then show "(case e of (source, pa) \<Rightarrow>
                \<not> list_ex (\<lambda>(s, q). s = source \<and> \<not> confIsStored pm q) (paths pm)) =
             (case e of (source, pa) \<Rightarrow> confIsStored pm pa)"
    unfolding e by simp
qed

section \<open>The examples, evaluated\<close>

lemma oneConf_eq:
  "Regexp c = None \<Longrightarrow>
   oneConf c =
     \<lparr>authMethods = [], confHeap = [c],
      pathHeap = [\<lparr>ConfName = ''cam1'', Conf = 0, Name = ''cam1''\<rparr>],
      pathConfs = [(''cam1'', 0)], paths = [], trace = []\<rparr>"
  by (simp add: oneConf_def New_def createPaths_def createPath_def)

lemma findPathConf_oneConf:
  "Regexp c = None \<Longrightarrow>
   findPathConf exampleEnv (oneConf c) ''cam1'' = (Inr (''cam1'', 0), oneConf c)"
  by (simp add: oneConf_eq findPathConf_def exampleEnv_def)

lemma confHeap_oneConf: "Regexp c = None \<Longrightarrow> confHeap (oneConf c) ! 0 = c"
  by (simp add: oneConf_eq)

lemma cam1_fields:
  "Regexp cam1 = None" "Source cam1 = ''publisher''" "ReadUser cam1 = ''''" "ReadPass cam1 = ''''"
  "ReadIPsParsed cam1 = None" "HTTPCallback cam1 = ''''"
  "PublishUser cam1 = ''''" "PublishPass cam1 = ''''" "PublishIPsParsed cam1 = None"
  by (simp_all add: cam1_def)

lemma cam1Req_fields:
  "PathName cam1Req = ''cam1''" "IP cam1Req = Some [192, 168, 1, 5]"
  "RemoteAddr cam1Req = ''192.168.1.5:5000''" "LocalAddr cam1Req = ''10.0.0.1:554''"
  "ValidateCredentials cam1Req = None" "Res cam1Req = 7"
  by (simp_all add: cam1Req_def)

lemma exampleEnv_fields:
  "CheckPathName exampleEnv = (\<lambda>name. if name = '''' then Some ''cannot be empty'' else None)"
  "json_Marshal exampleEnv = (\<lambda>p. Inr (remote_addr p @ '','' @ local_addr p @ '','' @ path p))"
  "Client_Post exampleEnv = (\<lambda>check url contentType body. exampleDelegate url)"
  "IP_Equal exampleEnv = (\<lambda>a b. a = b)"
  "IPNet_Contains exampleEnv = exampleContains"
  "IP_String exampleEnv = (\<lambda>ip. if ip = [192, 168, 1, 5] then ''192.168.1.5'' else ''10.1.2.3'')"
  "Equal exampleEnv = (\<lambda>a b. a = b)"
  by (simp_all add: exampleEnv_def)

lemma DoAuthRequest_example:
  "DoAuthRequest exampleEnv (cam1\<lparr>HTTPCallback := ''http://auth/broken''\<rparr>) p =
     Inl (Errorf ''invalid redirect response. closing connection'')"
  "DoAuthRequest exampleEnv (cam1\<lparr>HTTPCallback := ''http://auth/deny''\<rparr>) p =
     Inr \<lparr>Close = True, Target = ''''\<rparr>"
  "DoAuthRequest exampleEnv (cam1\<lparr>HTTPCallback := ''http://auth/redirect''\<rparr>) p =
     Inr \<lparr>Close = False, Target = ''rtsp://upstream/foo''\<rparr>"
  "DoAuthRequest exampleEnv cam1 p = Inr \<lparr>Close = False, Target = ''''\<rparr>"
  "DoAuthRequest exampleEnv (cam1\<lparr>ReadIPsParsed := ips\<rparr>) p = Inr \<lparr>Close = False, Target = ''''\<rparr>"
  by (simp_all add: DoAuthRequest_def exampleEnv_fields exampleDelegate_def Header_Get_def cam1_fields)

lemma cam1Redirect_fields:
  "Regexp cam1Redirect = None" "HTTPCallback cam1Redirect = ''http://auth/redirect''"
  "ReadIPsParsed cam1Redirect = None" "ReadUser cam1Redirect = ''''" "ReadPass cam1Redirect = ''''"
  "Source cam1Redirect = ''publisher''"
  by (simp_all add: cam1Redirect_def cam1_def)

lemma cam1Net10_fields:
  "Regexp cam1Net10 = None" "HTTPCallback cam1Net10 = ''''"
  "ReadIPsParsed cam1Net10 = Some [ItemIPNet net10]" "ReadUser cam1Net10 = ''''" "ReadPass cam1Net10 = ''''"
  "Source cam1Net10 = ''publisher''"
  by (simp_all add: cam1Net10_def cam1_def)

lemma DoAuthRequest_cam1Redirect:
  "DoAuthRequest exampleEnv cam1Redirect p = Inr \<lparr>Close = False, Target = ''rtsp://upstream/foo''\<rparr>"
  by (simp add: cam1Redirect_def DoAuthRequest_example)

lemma DoAuthRequest_cam1Net10:
  "DoAuthRequest exampleEnv cam1Net10 p = Inr \<lparr>Close = False, Target = ''''\<rparr>"
  by (simp add: cam1Net10_def DoAuthRequest_example)

lemma rpPlay_cam1Redirect:
  "rpPlay exampleEnv k cam1Req (oneConf cam1Redirect) =
     \<lparr>authMethods = [], confHeap = [cam1Redirect, cam1Redirect\<lparr>Source := ''rtsp://upstream/foo''\<rparr>],
      pathHeap = [\<lparr>ConfName = ''cam1'', Conf = 0, Name = ''cam1''\<rparr>,
                  \<lparr>ConfName = ''cam1'', Conf = 1, Name = ''cam1''\<rparr>],
      pathConfs = [(''cam1'', 0)], paths = [(''rtsp://upstream/foo'', 1)],
      trace = [OnPathMan k (Some 1) 7]\<rparr>"
  by (simp add: rpPlay_def cam1Req_fields findPathConf_oneConf cam1Redirect_fields confHeap_oneConf
      DoAuthRequest_cam1Redirect redirect_def copyConf_def setSource_def routePlay_def
      authenticate_def createPath_def)
     (simp add: oneConf_eq cam1Redirect_fields cam1Req_fields createPath_def)

lemma rpPlay_cam1Net10_nil:
  "rpPlay exampleEnv k (cam1Req\<lparr>IP := None\<rparr>) (oneConf cam1Net10) =
     \<lparr>authMethods = [], confHeap = [cam1Net10],
      pathHeap = [\<lparr>ConfName = ''cam1'', Conf = 0, Name = ''cam1''\<rparr>,
                  \<lparr>ConfName = ''cam1'', Conf = 0, Name = ''cam1''\<rparr>],
      pathConfs = [(''cam1'', 0)], paths = [(''publisher'', 1)],
      trace = [OnPathMan k (Some 1) 7]\<rparr>"
  by (simp add: rpPlay_def cam1Req_fields findPathConf_oneConf cam1Net10_fields confHeap_oneConf
      DoAuthRequest_cam1Net10 redirect_def routePlay_def
      authenticate_def createPath_def)
     (simp add: oneConf_eq cam1Net10_fields cam1Req_fields createPath_def)

lemma rpPlay_cam1:
  "rpPlay exampleEnv k cam1Req (oneConf cam1) =
     \<lparr>authMethods = [], confHeap = [cam1],
      pathHeap = [\<lparr>ConfName = ''cam1'', Conf = 0, Name = ''cam1''\<rparr>,
                  \<lparr>ConfName = ''cam1'', Conf = 0, Name = ''cam1''\<rparr>],
      pathConfs = [(''cam1'', 0)], paths = [(''publisher'', 1)],
      trace = [OnPathMan k (Some 1) 7]\<rparr>"
  by (simp add: rpPlay_def cam1Req_fields findPathConf_oneConf cam1_fields confHeap_oneConf
      DoAuthRequest_example redirect_def routePlay_def authenticate_def createPath_def)
     (simp add: oneConf_eq cam1_fields cam1Req_fields createPath_def)

lemma afterPlain_eq:
  "afterPlain =
     \<lparr>authMethods = [], confHeap = [cam1, cam1],
      pathHeap = [\<lparr>ConfName = ''cam1'', Conf = 0, Name = ''cam1''\<rparr>,
                  \<lparr>ConfName = ''cam1'', Conf = 0, Name = ''cam1''\<rparr>],
      pathConfs = [(''cam1'', 0)], paths = [(''publisher'', 1)],
      trace = [OnPathMan Describe (Some 1) 7]\<rparr>"
  by (simp add: afterPlain_def rpDescribe_def rpPlay_cam1)

lemma afterRedirect_eq:
  "afterRedirect =
     \<lparr>authMethods = [],
      confHeap = [cam1Redirect, cam1Redirect\<lparr>Source := ''rtsp://upstream/foo''\<rparr>, cam1Redirect],
      pathHeap = [\<lparr>ConfName = ''cam1'', Conf = 0, Name = ''cam1''\<rparr>,
                  \<lparr>ConfName = ''cam1'', Conf = 1, Name = ''cam1''\<rparr>],
      pathConfs = [(''cam1'', 0)], paths = [(''rtsp://upstream/foo'', 1)],
      trace = [OnPathMan Describe (Some 1) 7]\<rparr>"
  by (simp add: afterRedirect_def rpDescribe_def rpPlay_cam1Redirect)

lemma confReload_afterRedirect:
  "confReload exampleEnv [(''cam1'', 2)] afterRedirect =
     \<lparr>authMethods = [],
      confHeap = [cam1Redirect, cam1Redirect\<lparr>Source := ''rtsp://upstream/foo''\<rparr>, cam1Redirect],
      pathHeap = [\<lparr>ConfName = ''cam1'', Conf = 0, Name = ''cam1''\<rparr>,
                  \<lparr>ConfName = ''cam1'', Conf = 1, Name = ''cam1''\<rparr>,
                  \<lparr>ConfName = ''cam1'', Conf = 0, Name = ''cam1''\<rparr>],
      pathConfs = [(''cam1'', 0)], paths = [],
      trace = [OnPathMan Describe (Some 1) 7, PathClosed 1]\<rparr>"
  by (simp add: afterRedirect_eq confReload_def exampleEnv_fields createPaths_def createPath_def
      cam1Redirect_fields AList.delete_eq)

lemma cam1Net10Deny_fields:
  "Regexp cam1Net10Deny = None" "HTTPCallback cam1Net10Deny = ''http://auth/deny''"
  "ReadIPsParsed cam1Net10Deny = Some [ItemIPNet net10]"
  by (simp_all add: cam1Net10Deny_def cam1Net10_def cam1_def)

lemma DoAuthRequest_cam1Net10Deny:
  "DoAuthRequest exampleEnv cam1Net10Deny p = Inr \<lparr>Close = True, Target = ''''\<rparr>"
  by (simp add: DoAuthRequest_def exampleEnv_fields exampleDelegate_def Header_Get_def
      cam1Net10Deny_fields)

lemma rpPlay_cam1Net10Deny:
  "rpPlay exampleEnv k cam1Req (oneConf cam1Net10Deny) =
     \<lparr>authMethods = [], confHeap = [cam1Net10Deny],
      pathHeap = [\<lparr>ConfName = ''cam1'', Conf = 0, Name = ''cam1''\<rparr>],
      pathConfs = [(''cam1'', 0)], paths = [],
      trace = [ErrReply k 7 (Errorf ''not allowed'')]\<rparr>"
  by (simp add: rpPlay_def cam1Req_fields findPathConf_oneConf cam1Net10Deny_fields confHeap_oneConf
      DoAuthRequest_cam1Net10Deny reply_def)
     (simp add: oneConf_eq cam1Net10Deny_fields cam1Req_fields)

lemma freshAtReload_eq:
  "freshAtReload =
     \<lparr>authMethods = [], confHeap = [cam1, cam1],
      pathHeap = [\<lparr>ConfName = ''cam1'', Conf = 0, Name = ''cam1''\<rparr>],
      pathConfs = [(''cam1'', 0)], paths = [], trace = []\<rparr>"
  by (simp add: freshAtReload_def oneConf_eq cam1_fields)

lemma confReload_afterPlain:
  "confReload exampleEnv [(''cam1'', 1)] afterPlain =
     \<lparr>authMethods = [], confHeap = [cam1, cam1],
      pathHeap = [\<lparr>ConfName = ''cam1'', Conf = 0, Name = ''cam1''\<rparr>,
                  \<lparr>ConfName = ''cam1'', Conf = 0, Name = ''cam1''\<rparr>],
      pathConfs = [(''cam1'', 0)], paths = [(''publisher'', 1)],
      trace = [OnPathMan Describe (Some 1) 7]\<rparr>"
  by (simp add: afterPlain_eq confReload_def exampleEnv_fields createPaths_def createPath_def
      cam1_fields AList.delete_eq)

lemma confReload_freshAtReload:
  "confReload exampleEnv [(''cam1'', 1)] freshAtReload =
     \<lparr>authMethods = [], confHeap = [cam1, cam1],
      pathHeap = [\<lparr>ConfName = ''cam1'', Conf = 0, Name = ''cam1''\<rparr>,
                  \<lparr>ConfName = ''cam1'', Conf = 0, Name = ''cam1''\<rparr>],
      pathConfs = [(''cam1'', 0)], paths = [], trace = []\<rparr>"
  by (simp add: freshAtReload_eq confReload_def exampleEnv_fields createPaths_def createPath_def
      cam1_fields AList.delete_eq)

lemma confReload_freshAtReload_twice:
  "confReload exampleEnv [(''cam1'', 1)] (confReload exampleEnv [(''cam1'', 1)] freshAtReload) =
     \<lparr>authMethods = [], confHeap = [cam1, cam1],
      pathHeap = [\<lparr>ConfName = ''cam1'', Conf = 0, Name = ''cam1''\<rparr>,
                  \<lparr>ConfName = ''cam1'', Conf = 0, Name = ''cam1''\<rparr>,
                  \<lparr>ConfName = ''cam1'', Conf = 0, Name = ''cam1''\<rparr>],
      pathConfs = [(''cam1'', 0)], paths = [], trace = []\<rparr>"
  unfolding confReload_freshAtReload
  by (simp add: confReload_def exampleEnv_fields createPaths_def createPath_def
      cam1_fields AList.delete_eq)

text \<open>
  What a reload with an equal map does to the live paths, whatever they are: the stored map
  stays, and the paths closed are those whose configuration is not the object stored under
  their configuration name.
\<close>

lemma confReload_same_paths:
  assumes "sameConfs env (confHeap pm) new (pathConfs pm)"
    and "distinct (map fst (paths pm))"
  shows "pathConfs (confReload env new pm) = pathConfs pm
       \<and> paths (confReload env new pm) = filter (\<lambda>(source, pa). confIsStored pm pa) (paths pm)
       \<and> trace (confReload env new pm) =
           trace pm @ map (\<lambda>(source, pa). PathClosed pa)
                        (filter (\<lambda>(source, pa). \<not> confIsStored pm pa) (paths pm))
       \<and> (list_all (\<lambda>(source, pa). confIsStored pm pa) (paths pm) \<longrightarrow>
            paths (confReload env new pm) = paths pm \<and> trace (confReload env new pm) = trace pm)"
proof -
  have c: "pathConfs (confReload env new pm) = pathConfs pm"
    unfolding confReload_same [OF assms(1)] by (simp add: createPaths_frame removePaths_frame)
  have p: "paths (confReload env new pm) = filter (\<lambda>(source, pa). confIsStored pm pa) (paths pm)"
    unfolding confReload_same [OF assms(1)]
    by (simp add: createPaths_frame removePaths_paths_distinct [OF assms(2)])
  have t: "trace (confReload env new pm) =
           trace pm @ map (\<lambda>(source, pa). PathClosed pa)
                        (filter (\<lambda>(source, pa). \<not> confIsStored pm pa) (paths pm))"
    unfolding confReload_same [OF assms(1)] by (simp add: createPaths_frame removePaths_trace)
  have a: "list_all (\<lambda>(source, pa). confIsStored pm pa) (paths pm) \<Longrightarrow>
      filter (\<lambda>(source, pa). confIsStored pm pa) (paths pm) = paths pm
      \<and> filter (\<lambda>(source, pa). \<not> confIsStored pm pa) (paths pm) = []"
    by (simp add: list_all_iff filter_id_conv filter_empty_conv split_def)
  show ?thesis
    using c p t a by simp
qed

section \<open>Claims\<close>

text \<open>
  C1. An Announce that resolves and is authorised, with no live path at the source of its
  configuration, is claimed to create a path, store it in the live path set under that key
  and forward the request to the path stored there. On a manager just built for \<open>cam1\<close>
  the Announce for \<open>cam1\<close> allocates a second path and stores none: the live path set
  stays empty, and \<^verbatim>\<open>OnPathManAnnounce\<close> is called on the nil receiver that the lookup of a
  missing key gives.
\<close>

theorem rpAnnounce_cam1_forwards_to_nil:
  "paths (rpAnnounce exampleEnv cam1Req (New [cam1] [] [(''cam1'', 0)])) = []
   \<and> length (pathHeap (rpAnnounce exampleEnv cam1Req (New [cam1] [] [(''cam1'', 0)]))) =
       Suc (length (pathHeap (New [cam1] [] [(''cam1'', 0)])))
   \<and> trace (rpAnnounce exampleEnv cam1Req (New [cam1] [] [(''cam1'', 0)])) =
       [OnPathMan Announce None 7]"
  by (simp add: rpAnnounce_cam1) (simp add: New_cam1)

text \<open>
  C2. After construction and after a reload, the live path set is claimed to hold a path
  under the source of every literal entry. \<^verbatim>\<open>createPaths\<close> allocates a path for the literal
  entry \<open>cam1\<close> and drops the pointer: after \<^verbatim>\<open>New\<close>, and after a reload that brings
  \<open>cam1\<close> to a manager built without entries, the path is in memory and the live path
  set is empty.
\<close>

theorem createPaths_cam1_stores_nothing:
  "paths (New [cam1] [] [(''cam1'', 0)]) = []
   \<and> pathHeap (New [cam1] [] [(''cam1'', 0)]) = [\<lparr>ConfName = ''cam1'', Conf = 0, Name = ''cam1''\<rparr>]
   \<and> pathConfs (confReload exampleEnv [(''cam1'', 0)] (New [cam1] [] [])) = [(''cam1'', 0)]
   \<and> paths (confReload exampleEnv [(''cam1'', 0)] (New [cam1] [] [])) = []
   \<and> pathHeap (confReload exampleEnv [(''cam1'', 0)] (New [cam1] [] [])) =
       [\<lparr>ConfName = ''cam1'', Conf = 0, Name = ''cam1''\<rparr>]"
  by (simp add: New_cam1)
     (simp add: New_def confReload_def createPaths_def createPath_def cam1_def)

text \<open>
  C3. A Describe for which the resolution of the configuration fails, the callback step
  fails (its call returns an error, or it denies), or the authorisation fails, is answered
  with exactly one error on the reply channel of the request, and no path is created: the
  live path set and the paths in memory are what they were. In particular a callback that
  answers 403 gives the error "not allowed".
\<close>

theorem rpDescribe_failure_replies_once_creates_nothing:
  "(\<forall>e pm1. findPathConf env pm (PathName req) = (Inl e, pm1) \<longrightarrow>
       errorReplyOnly Describe req e pm (rpDescribe env req pm))
   \<and> (\<forall>pathName pathConf pm1 e.
         findPathConf env pm (PathName req) = (Inr (pathName, pathConf), pm1)
         \<and> DoAuthRequest env (confHeap pm1 ! pathConf)
             \<lparr>remote_addr = RemoteAddr req, local_addr = LocalAddr req, path = PathName req\<rparr> = Inl e \<longrightarrow>
       errorReplyOnly Describe req e pm (rpDescribe env req pm))
   \<and> (\<forall>pathName pathConf pm1 action.
         findPathConf env pm (PathName req) = (Inr (pathName, pathConf), pm1)
         \<and> DoAuthRequest env (confHeap pm1 ! pathConf)
             \<lparr>remote_addr = RemoteAddr req, local_addr = LocalAddr req, path = PathName req\<rparr> = Inr action
         \<and> Close action \<longrightarrow>
       errorReplyOnly Describe req (Errorf ''not allowed'') pm (rpDescribe env req pm))
   \<and> (\<forall>pathName pathConf pm1 action pm2 pathConf' e.
         findPathConf env pm (PathName req) = (Inr (pathName, pathConf), pm1)
         \<and> DoAuthRequest env (confHeap pm1 ! pathConf)
             \<lparr>remote_addr = RemoteAddr req, local_addr = LocalAddr req, path = PathName req\<rparr> = Inr action
         \<and> \<not> Close action
         \<and> redirect action pathConf pm1 = (pm2, pathConf')
         \<and> authenticate env pm2 (IP req) (ValidateCredentials req) (PathName req)
             (ReadIPsParsed (confHeap pm2 ! pathConf')) (ReadUser (confHeap pm2 ! pathConf'))
             (ReadPass (confHeap pm2 ! pathConf')) = Some e \<longrightarrow>
       errorReplyOnly Describe req e pm (rpDescribe env req pm))
   \<and> (\<forall>pathName pathConf pm1 data resp.
         findPathConf env pm (PathName req) = (Inr (pathName, pathConf), pm1)
         \<and> HTTPCallback (confHeap pm1 ! pathConf) \<noteq> ''''
         \<and> json_Marshal env
             \<lparr>remote_addr = RemoteAddr req, local_addr = LocalAddr req, path = PathName req\<rparr> = Inr data
         \<and> Client_Post env CheckRedirect (HTTPCallback (confHeap pm1 ! pathConf)) ''application/json'' data
             = Inr resp
         \<and> StatusCode resp = 403 \<longrightarrow>
       errorReplyOnly Describe req (Errorf ''not allowed'') pm (rpDescribe env req pm))"
proof (intro conjI allI impI; (elim conjE)?)
  fix e pm1
  assume fp: "findPathConf env pm (PathName req) = (Inl e, pm1)"
  show "errorReplyOnly Describe req e pm (rpDescribe env req pm)"
    unfolding rpDescribe_def rpPlay_resolve_error [OF fp]
    by (rule errorReplyOnly_reply) simp_all
next
  fix pathName pathConf pm1 e
  assume fp: "findPathConf env pm (PathName req) = (Inr (pathName, pathConf), pm1)"
    and da: "DoAuthRequest env (confHeap pm1 ! pathConf)
             \<lparr>remote_addr = RemoteAddr req, local_addr = LocalAddr req, path = PathName req\<rparr> = Inl e"
  show "errorReplyOnly Describe req e pm (rpDescribe env req pm)"
    unfolding rpDescribe_def rpPlay_callback_error [OF fp da]
    by (rule errorReplyOnly_reply) (rule findPathConf_frame [OF fp])+
next
  fix pathName pathConf pm1 action
  assume fp: "findPathConf env pm (PathName req) = (Inr (pathName, pathConf), pm1)"
    and da: "DoAuthRequest env (confHeap pm1 ! pathConf)
             \<lparr>remote_addr = RemoteAddr req, local_addr = LocalAddr req, path = PathName req\<rparr> = Inr action"
    and cl: "Close action"
  show "errorReplyOnly Describe req (Errorf ''not allowed'') pm (rpDescribe env req pm)"
    unfolding rpDescribe_def rpPlay_denied [OF fp da cl]
    by (rule errorReplyOnly_reply) (rule findPathConf_frame [OF fp])+
next
  fix pathName pathConf pm1 action pm2 pathConf' e
  assume fp: "findPathConf env pm (PathName req) = (Inr (pathName, pathConf), pm1)"
    and da: "DoAuthRequest env (confHeap pm1 ! pathConf)
             \<lparr>remote_addr = RemoteAddr req, local_addr = LocalAddr req, path = PathName req\<rparr> = Inr action"
    and cl: "\<not> Close action"
    and rd: "redirect action pathConf pm1 = (pm2, pathConf')"
    and au: "authenticate env pm2 (IP req) (ValidateCredentials req) (PathName req)
             (ReadIPsParsed (confHeap pm2 ! pathConf')) (ReadUser (confHeap pm2 ! pathConf'))
             (ReadPass (confHeap pm2 ! pathConf')) = Some e"
  have "trace pm2 = trace pm" "paths pm2 = paths pm" "pathHeap pm2 = pathHeap pm"
    using findPathConf_frame [OF fp] redirect_frame [OF rd] by simp_all
  then show "errorReplyOnly Describe req e pm (rpDescribe env req pm)"
    unfolding rpDescribe_def rpPlay_routed [OF fp da cl rd] routePlay_auth_error [OF au]
    by (rule errorReplyOnly_reply)
next
  fix pathName pathConf pm1 data resp
  assume fp: "findPathConf env pm (PathName req) = (Inr (pathName, pathConf), pm1)"
    and cb: "HTTPCallback (confHeap pm1 ! pathConf) \<noteq> ''''"
    and ma: "json_Marshal env
             \<lparr>remote_addr = RemoteAddr req, local_addr = LocalAddr req, path = PathName req\<rparr> = Inr data"
    and po: "Client_Post env CheckRedirect (HTTPCallback (confHeap pm1 ! pathConf)) ''application/json'' data
             = Inr resp"
    and st: "StatusCode resp = 403"
  have cl: "Close \<lparr>Close = True, Target = ''''\<rparr>"
    by simp
  show "errorReplyOnly Describe req (Errorf ''not allowed'') pm (rpDescribe env req pm)"
    unfolding rpDescribe_def rpPlay_denied [OF fp DoAuthRequest_403 [OF cb ma po st] cl]
    by (rule errorReplyOnly_reply) (rule findPathConf_frame [OF fp])+
qed

theorem rpDescribe_failure_replies_once_creates_nothing_witness:
  "errorReplyOnly Describe (cam1Req\<lparr>PathName := ''''\<rparr>)
     (Errorf ''invalid path name: cannot be empty ()'')
     (oneConf cam1) (rpDescribe exampleEnv (cam1Req\<lparr>PathName := ''''\<rparr>) (oneConf cam1))
   \<and> errorReplyOnly Describe cam1Req
     (Errorf ''invalid redirect response. closing connection'')
     (oneConf (cam1\<lparr>HTTPCallback := ''http://auth/broken''\<rparr>))
     (rpDescribe exampleEnv cam1Req (oneConf (cam1\<lparr>HTTPCallback := ''http://auth/broken''\<rparr>)))
   \<and> errorReplyOnly Describe cam1Req (Errorf ''not allowed'')
     (oneConf (cam1\<lparr>HTTPCallback := ''http://auth/deny''\<rparr>))
     (rpDescribe exampleEnv cam1Req (oneConf (cam1\<lparr>HTTPCallback := ''http://auth/deny''\<rparr>)))
   \<and> errorReplyOnly Describe cam1Req
     (ErrAuthCritical (''IP '' @ [CHR 0x27] @ ''192.168.1.5'' @ [CHR 0x27] @ '' not allowed'') 401)
     (oneConf (cam1\<lparr>ReadIPsParsed := Some [ItemIPNet net10]\<rparr>))
     (rpDescribe exampleEnv cam1Req (oneConf (cam1\<lparr>ReadIPsParsed := Some [ItemIPNet net10]\<rparr>)))"
proof -
  let ?bad = "cam1Req\<lparr>PathName := ''''\<rparr>"
  have "findPathConf exampleEnv (oneConf cam1) (PathName ?bad) =
      (Inl (Errorf ''invalid path name: cannot be empty ()''), oneConf cam1)"
    by (simp add: findPathConf_def exampleEnv_fields)
  from rpDescribe_failure_replies_once_creates_nothing
         [of exampleEnv "oneConf cam1" ?bad, THEN conjunct1, rule_format, OF this]
  have w1: "errorReplyOnly Describe ?bad (Errorf ''invalid path name: cannot be empty ()'')
      (oneConf cam1) (rpDescribe exampleEnv ?bad (oneConf cam1))" .
  let ?broken = "cam1\<lparr>HTTPCallback := ''http://auth/broken''\<rparr>"
  have "findPathConf exampleEnv (oneConf ?broken) (PathName cam1Req) = (Inr (''cam1'', 0), oneConf ?broken)
      \<and> DoAuthRequest exampleEnv (confHeap (oneConf ?broken) ! 0)
          \<lparr>remote_addr = RemoteAddr cam1Req, local_addr = LocalAddr cam1Req, path = PathName cam1Req\<rparr>
        = Inl (Errorf ''invalid redirect response. closing connection'')"
    by (simp add: cam1Req_fields findPathConf_oneConf confHeap_oneConf cam1_fields DoAuthRequest_example)
  from rpDescribe_failure_replies_once_creates_nothing
         [of exampleEnv "oneConf ?broken" cam1Req, THEN conjunct2, THEN conjunct1, rule_format, OF this]
  have w2: "errorReplyOnly Describe cam1Req (Errorf ''invalid redirect response. closing connection'')
      (oneConf ?broken) (rpDescribe exampleEnv cam1Req (oneConf ?broken))" .
  let ?deny = "cam1\<lparr>HTTPCallback := ''http://auth/deny''\<rparr>"
  have "findPathConf exampleEnv (oneConf ?deny) (PathName cam1Req) = (Inr (''cam1'', 0), oneConf ?deny)
      \<and> DoAuthRequest exampleEnv (confHeap (oneConf ?deny) ! 0)
          \<lparr>remote_addr = RemoteAddr cam1Req, local_addr = LocalAddr cam1Req, path = PathName cam1Req\<rparr>
        = Inr \<lparr>Close = True, Target = ''''\<rparr>
      \<and> Close \<lparr>Close = True, Target = ''''\<rparr>"
    by (simp add: cam1Req_fields findPathConf_oneConf confHeap_oneConf cam1_fields DoAuthRequest_example)
  from rpDescribe_failure_replies_once_creates_nothing
         [of exampleEnv "oneConf ?deny" cam1Req, THEN conjunct2, THEN conjunct2, THEN conjunct1,
          rule_format, OF this]
  have w3: "errorReplyOnly Describe cam1Req (Errorf ''not allowed'')
      (oneConf ?deny) (rpDescribe exampleEnv cam1Req (oneConf ?deny))" .
  have "findPathConf exampleEnv (oneConf ?deny) (PathName cam1Req) = (Inr (''cam1'', 0), oneConf ?deny)
      \<and> HTTPCallback (confHeap (oneConf ?deny) ! 0) \<noteq> ''''
      \<and> json_Marshal exampleEnv
          \<lparr>remote_addr = RemoteAddr cam1Req, local_addr = LocalAddr cam1Req, path = PathName cam1Req\<rparr>
        = Inr ''192.168.1.5:5000,10.0.0.1:554,cam1''
      \<and> Client_Post exampleEnv CheckRedirect (HTTPCallback (confHeap (oneConf ?deny) ! 0))
          ''application/json'' ''192.168.1.5:5000,10.0.0.1:554,cam1''
        = Inr \<lparr>StatusCode = 403, Header = []\<rparr>
      \<and> StatusCode \<lparr>StatusCode = 403, Header = []\<rparr> = 403"
    by (simp add: cam1Req_fields findPathConf_oneConf confHeap_oneConf cam1_fields exampleEnv_fields
        exampleDelegate_def)
  from rpDescribe_failure_replies_once_creates_nothing
         [of exampleEnv "oneConf ?deny" cam1Req, THEN conjunct2, THEN conjunct2, THEN conjunct2,
          THEN conjunct2, rule_format, OF this]
  have w5: "errorReplyOnly Describe cam1Req (Errorf ''not allowed'')
      (oneConf ?deny) (rpDescribe exampleEnv cam1Req (oneConf ?deny))" .
  let ?ips = "cam1\<lparr>ReadIPsParsed := Some [ItemIPNet net10]\<rparr>"
  have "findPathConf exampleEnv (oneConf ?ips) (PathName cam1Req) = (Inr (''cam1'', 0), oneConf ?ips)
      \<and> DoAuthRequest exampleEnv (confHeap (oneConf ?ips) ! 0)
          \<lparr>remote_addr = RemoteAddr cam1Req, local_addr = LocalAddr cam1Req, path = PathName cam1Req\<rparr>
        = Inr \<lparr>Close = False, Target = ''''\<rparr>
      \<and> \<not> Close \<lparr>Close = False, Target = ''''\<rparr>
      \<and> redirect \<lparr>Close = False, Target = ''''\<rparr> 0 (oneConf ?ips) = (oneConf ?ips, 0)
      \<and> authenticate exampleEnv (oneConf ?ips) (IP cam1Req) (ValidateCredentials cam1Req)
          (PathName cam1Req) (ReadIPsParsed (confHeap (oneConf ?ips) ! 0))
          (ReadUser (confHeap (oneConf ?ips) ! 0)) (ReadPass (confHeap (oneConf ?ips) ! 0))
        = Some (ErrAuthCritical (''IP '' @ [CHR 0x27] @ ''192.168.1.5'' @ [CHR 0x27] @ '' not allowed'') 401)"
    by (simp add: cam1Req_fields findPathConf_oneConf confHeap_oneConf cam1_fields DoAuthRequest_example
        redirect_def authenticate_def exampleEnv_fields exampleContains_def net10_def
        StatusUnauthorized_def)
  from rpDescribe_failure_replies_once_creates_nothing
         [of exampleEnv "oneConf ?ips" cam1Req, THEN conjunct2, THEN conjunct2, THEN conjunct2,
          THEN conjunct1, rule_format, OF this]
  have w4: "errorReplyOnly Describe cam1Req
      (ErrAuthCritical (''IP '' @ [CHR 0x27] @ ''192.168.1.5'' @ [CHR 0x27] @ '' not allowed'') 401)
      (oneConf ?ips) (rpDescribe exampleEnv cam1Req (oneConf ?ips))" .
  from w1 w2 w3 w4 w5 show ?thesis
    by simp
qed

text \<open>
  C4. When the callback of a Describe or SetupPlay returns a redirect target, the manager
  allocates a copy of the resolved configuration, replaces the source on the copy and goes
  on with the address of the copy; the stored map and every configuration object that
  existed before, those of the registry among them, are unchanged in every field.
\<close>

theorem redirect_rewrites_source_on_a_copy:
  assumes "findPathConf env pm (PathName req) = (Inr (pathName, pathConf), pm1)"
    and "DoAuthRequest env (confHeap pm1 ! pathConf)
           \<lparr>remote_addr = RemoteAddr req, local_addr = LocalAddr req, path = PathName req\<rparr> = Inr action"
    and "Target action \<noteq> ''''"
  shows "redirectedOnCopy env Describe req pathName pathConf (Target action) pm pm1 (rpDescribe env req pm)
       \<and> redirectedOnCopy env SetupPlay req pathName pathConf (Target action) pm pm1 (rpSetupPlay env req pm)"
  unfolding rpDescribe_def rpSetupPlay_def
  using rpPlay_redirected [OF assms] by blast

theorem redirect_rewrites_source_on_a_copy_witness:
  "redirectedOnCopy exampleEnv Describe cam1Req ''cam1'' 0 ''rtsp://upstream/foo''
     (oneConf cam1Redirect) (oneConf cam1Redirect) (rpDescribe exampleEnv cam1Req (oneConf cam1Redirect))
   \<and> redirectedOnCopy exampleEnv SetupPlay cam1Req ''cam1'' 0 ''rtsp://upstream/foo''
     (oneConf cam1Redirect) (oneConf cam1Redirect) (rpSetupPlay exampleEnv cam1Req (oneConf cam1Redirect))
   \<and> confHeap (rpDescribe exampleEnv cam1Req (oneConf cam1Redirect)) =
       [cam1Redirect, cam1Redirect\<lparr>Source := ''rtsp://upstream/foo''\<rparr>]
   \<and> pathConfs (rpDescribe exampleEnv cam1Req (oneConf cam1Redirect)) = [(''cam1'', 0)]
   \<and> paths (rpDescribe exampleEnv cam1Req (oneConf cam1Redirect)) = [(''rtsp://upstream/foo'', 1)]
   \<and> Conf (pathHeap (rpDescribe exampleEnv cam1Req (oneConf cam1Redirect)) ! 1) = 1"
proof -
  have fp: "findPathConf exampleEnv (oneConf cam1Redirect) (PathName cam1Req) =
      (Inr (''cam1'', 0), oneConf cam1Redirect)"
    by (simp add: cam1Req_fields findPathConf_oneConf cam1Redirect_fields)
  have da: "DoAuthRequest exampleEnv (confHeap (oneConf cam1Redirect) ! 0)
      \<lparr>remote_addr = RemoteAddr cam1Req, local_addr = LocalAddr cam1Req, path = PathName cam1Req\<rparr>
      = Inr \<lparr>Close = False, Target = ''rtsp://upstream/foo''\<rparr>"
    by (simp add: confHeap_oneConf cam1Redirect_fields DoAuthRequest_cam1Redirect)
  have tg: "Target \<lparr>Close = False, Target = ''rtsp://upstream/foo''\<rparr> \<noteq> ''''"
    by simp
  from redirect_rewrites_source_on_a_copy [OF fp da tg]
  show ?thesis
    by (simp add: rpDescribe_def rpPlay_cam1Redirect)
qed



text \<open>
  C6. When the callback is set, the payload is encoded and the client gets a response,
  \<^verbatim>\<open>DoAuthRequest\<close> decides by the status code alone: 2xx allows (no close, no target), 3xx
  redirects to the \<^verbatim>\<open>Location\<close> header and is an error "invalid location header ..." when
  the header is absent or empty, 4xx denies, any other code is an error. The client's
  \<^verbatim>\<open>CheckRedirect\<close> answers every redirect with \<^verbatim>\<open>ErrUseLastResponse\<close>, on which
  \<^verbatim>\<open>net/http\<close> returns the redirect response itself instead of following it.
\<close>

theorem DoAuthRequest_classifies_by_status:
  assumes "HTTPCallback pathConf \<noteq> ''''"
    and "json_Marshal env p = Inr data"
    and "Client_Post env CheckRedirect (HTTPCallback pathConf) ''application/json'' data = Inr resp"
  shows "(200 \<le> StatusCode resp \<and> StatusCode resp \<le> 299 \<longrightarrow>
            DoAuthRequest env pathConf p = Inr \<lparr>Close = False, Target = ''''\<rparr>)
       \<and> (300 \<le> StatusCode resp \<and> StatusCode resp \<le> 399
            \<and> Header_Get (Header resp) ''Location'' \<noteq> '''' \<longrightarrow>
            DoAuthRequest env pathConf p =
              Inr \<lparr>Close = False, Target = Header_Get (Header resp) ''Location''\<rparr>)
       \<and> (300 \<le> StatusCode resp \<and> StatusCode resp \<le> 399
            \<and> Header_Get (Header resp) ''Location'' = '''' \<longrightarrow>
            DoAuthRequest env pathConf p =
              Inl (Errorf ''invalid location header in redirect response. closing connection''))
       \<and> (400 \<le> StatusCode resp \<and> StatusCode resp \<le> 499 \<longrightarrow>
            DoAuthRequest env pathConf p = Inr \<lparr>Close = True, Target = ''''\<rparr>)
       \<and> (StatusCode resp < 200 \<or> 499 < StatusCode resp \<longrightarrow>
            DoAuthRequest env pathConf p =
              Inl (Errorf ''invalid redirect response. closing connection''))
       \<and> (\<forall>req via. CheckRedirect req via = Some ErrUseLastResponse)"
  using assms
  by (simp add: DoAuthRequest_def CheckRedirect_def Let_def)

theorem DoAuthRequest_classifies_by_status_witness:
  "DoAuthRequest exampleEnv (cam1\<lparr>HTTPCallback := ''http://auth/allow''\<rparr>)
      \<lparr>remote_addr = ''a'', local_addr = ''b'', path = ''cam1''\<rparr>
     = Inr \<lparr>Close = False, Target = ''''\<rparr>
   \<and> DoAuthRequest exampleEnv (cam1\<lparr>HTTPCallback := ''http://auth/redirect''\<rparr>)
      \<lparr>remote_addr = ''a'', local_addr = ''b'', path = ''cam1''\<rparr>
     = Inr \<lparr>Close = False, Target = ''rtsp://upstream/foo''\<rparr>
   \<and> DoAuthRequest exampleEnv (cam1\<lparr>HTTPCallback := ''http://auth/nolocation''\<rparr>)
      \<lparr>remote_addr = ''a'', local_addr = ''b'', path = ''cam1''\<rparr>
     = Inl (Errorf ''invalid location header in redirect response. closing connection'')
   \<and> DoAuthRequest exampleEnv (cam1\<lparr>HTTPCallback := ''http://auth/deny''\<rparr>)
      \<lparr>remote_addr = ''a'', local_addr = ''b'', path = ''cam1''\<rparr>
     = Inr \<lparr>Close = True, Target = ''''\<rparr>
   \<and> DoAuthRequest exampleEnv (cam1\<lparr>HTTPCallback := ''http://auth/broken''\<rparr>)
      \<lparr>remote_addr = ''a'', local_addr = ''b'', path = ''cam1''\<rparr>
     = Inl (Errorf ''invalid redirect response. closing connection'')"
proof -
  let ?p = "\<lparr>remote_addr = ''a'', local_addr = ''b'', path = ''cam1''\<rparr>"
  have m: "json_Marshal exampleEnv ?p = Inr ''a,b,cam1''"
    by (simp add: exampleEnv_def)
  have post: "\<And>url. Client_Post exampleEnv CheckRedirect url ''application/json'' ''a,b,cam1''
      = exampleDelegate url"
    by (simp add: exampleEnv_def)
  have "HTTPCallback (cam1\<lparr>HTTPCallback := ''http://auth/allow''\<rparr>) \<noteq> ''''"
    and "Client_Post exampleEnv CheckRedirect (HTTPCallback (cam1\<lparr>HTTPCallback := ''http://auth/allow''\<rparr>))
           ''application/json'' ''a,b,cam1'' = Inr \<lparr>StatusCode = 200, Header = []\<rparr>"
    by (simp_all add: post exampleDelegate_def)
  from DoAuthRequest_classifies_by_status [OF this(1) m this(2)]
  have allow: "DoAuthRequest exampleEnv (cam1\<lparr>HTTPCallback := ''http://auth/allow''\<rparr>) ?p
      = Inr \<lparr>Close = False, Target = ''''\<rparr>"
    by simp
  have "HTTPCallback (cam1\<lparr>HTTPCallback := ''http://auth/redirect''\<rparr>) \<noteq> ''''"
    and "Client_Post exampleEnv CheckRedirect (HTTPCallback (cam1\<lparr>HTTPCallback := ''http://auth/redirect''\<rparr>))
           ''application/json'' ''a,b,cam1''
         = Inr \<lparr>StatusCode = 302, Header = [(''Location'', ''rtsp://upstream/foo'')]\<rparr>"
    by (simp_all add: post exampleDelegate_def)
  from DoAuthRequest_classifies_by_status [OF this(1) m this(2)]
  have redir: "DoAuthRequest exampleEnv (cam1\<lparr>HTTPCallback := ''http://auth/redirect''\<rparr>) ?p
      = Inr \<lparr>Close = False, Target = ''rtsp://upstream/foo''\<rparr>"
    by (simp add: Header_Get_def)
  have "HTTPCallback (cam1\<lparr>HTTPCallback := ''http://auth/nolocation''\<rparr>) \<noteq> ''''"
    and "Client_Post exampleEnv CheckRedirect (HTTPCallback (cam1\<lparr>HTTPCallback := ''http://auth/nolocation''\<rparr>))
           ''application/json'' ''a,b,cam1'' = Inr \<lparr>StatusCode = 302, Header = []\<rparr>"
    by (simp_all add: post exampleDelegate_def)
  from DoAuthRequest_classifies_by_status [OF this(1) m this(2)]
  have noloc: "DoAuthRequest exampleEnv (cam1\<lparr>HTTPCallback := ''http://auth/nolocation''\<rparr>) ?p
      = Inl (Errorf ''invalid location header in redirect response. closing connection'')"
    by (simp add: Header_Get_def)
  have "HTTPCallback (cam1\<lparr>HTTPCallback := ''http://auth/deny''\<rparr>) \<noteq> ''''"
    and "Client_Post exampleEnv CheckRedirect (HTTPCallback (cam1\<lparr>HTTPCallback := ''http://auth/deny''\<rparr>))
           ''application/json'' ''a,b,cam1'' = Inr \<lparr>StatusCode = 403, Header = []\<rparr>"
    by (simp_all add: post exampleDelegate_def)
  from DoAuthRequest_classifies_by_status [OF this(1) m this(2)]
  have deny: "DoAuthRequest exampleEnv (cam1\<lparr>HTTPCallback := ''http://auth/deny''\<rparr>) ?p
      = Inr \<lparr>Close = True, Target = ''''\<rparr>"
    by simp
  have "HTTPCallback (cam1\<lparr>HTTPCallback := ''http://auth/broken''\<rparr>) \<noteq> ''''"
    and "Client_Post exampleEnv CheckRedirect (HTTPCallback (cam1\<lparr>HTTPCallback := ''http://auth/broken''\<rparr>))
           ''application/json'' ''a,b,cam1'' = Inr \<lparr>StatusCode = 500, Header = []\<rparr>"
    by (simp_all add: post exampleDelegate_def)
  from DoAuthRequest_classifies_by_status [OF this(1) m this(2)]
  have broken: "DoAuthRequest exampleEnv (cam1\<lparr>HTTPCallback := ''http://auth/broken''\<rparr>) ?p
      = Inl (Errorf ''invalid redirect response. closing connection'')"
    by simp
  from allow redir noloc deny broken show ?thesis
    by simp
qed

text \<open>
  C7, as stated, fails in two ways. First, for a caller without an address: the list of read
  addresses of \<open>cam1\<close> is 10.0.0.0/8 and the request carries a nil address, which is neither
  equal to a listed address nor inside a listed network; the Describe and the SetupPlay are
  not rejected but handed to a path. Second, for a callback that denies: the callback is asked
  before \<^verbatim>\<open>authenticate\<close>, so the request from 192.168.1.5, which is present and not listed,
  is answered with the plain error \<open>not allowed\<close> and not with \<^verbatim>\<open>ErrAuthCritical\<close>.
\<close>

theorem read_ip_gate_nil_ip_counterexample:
  "ReadIPsParsed (confHeap (oneConf cam1Net10) ! 0) = Some [ItemIPNet net10]
   \<and> [ItemIPNet net10] \<noteq> []
   \<and> IP (cam1Req\<lparr>IP := None\<rparr>) = None
   \<and> \<not> ipListed exampleEnv (ipBytes (IP (cam1Req\<lparr>IP := None\<rparr>))) [ItemIPNet net10]
   \<and> trace (rpDescribe exampleEnv (cam1Req\<lparr>IP := None\<rparr>) (oneConf cam1Net10)) =
       [OnPathMan Describe (Some 1) 7]
   \<and> paths (rpDescribe exampleEnv (cam1Req\<lparr>IP := None\<rparr>) (oneConf cam1Net10)) = [(''publisher'', 1)]
   \<and> trace (rpSetupPlay exampleEnv (cam1Req\<lparr>IP := None\<rparr>) (oneConf cam1Net10)) =
       [OnPathMan SetupPlay (Some 1) 7]
   \<and> ReadIPsParsed (confHeap (oneConf cam1Net10Deny) ! 0) = Some [ItemIPNet net10]
   \<and> IP cam1Req = Some [192, 168, 1, 5]
   \<and> \<not> ipListed exampleEnv [192, 168, 1, 5] [ItemIPNet net10]
   \<and> trace (rpDescribe exampleEnv cam1Req (oneConf cam1Net10Deny)) =
       [ErrReply Describe 7 (Errorf ''not allowed'')]
   \<and> trace (rpSetupPlay exampleEnv cam1Req (oneConf cam1Net10Deny)) =
       [ErrReply SetupPlay 7 (Errorf ''not allowed'')]"
  by (simp add: rpDescribe_def rpSetupPlay_def rpPlay_cam1Net10_nil rpPlay_cam1Net10Deny
      confHeap_oneConf cam1Net10_fields cam1Net10Deny_fields cam1Req_fields
      ipListed_def ipBytes_def exampleEnv_fields exampleContains_def net10_def)

text \<open>
  C7, amended. For a Describe or SetupPlay whose path name resolves to a configuration, whose
  callback step neither fails nor denies (no callback is set, or the callback allows or
  redirects), whose configuration has a non-empty list of read addresses, and whose caller
  address is present: if the address is neither equal to a listed address nor contained in a
  listed network, the request is answered with \<^verbatim>\<open>ErrAuthCritical\<close> carrying status 401 and
  nothing else happens; if it is listed, the address gate passes, that is, \<^verbatim>\<open>authenticate\<close>
  gives what it gives without a list.
\<close>

theorem read_ip_gate_for_present_ip:
  assumes "findPathConf env pm (PathName req) = (Inr (pathName, pathConf), pm1)"
    and "DoAuthRequest env (confHeap pm1 ! pathConf)
           \<lparr>remote_addr = RemoteAddr req, local_addr = LocalAddr req, path = PathName req\<rparr> = Inr action"
    and "\<not> Close action"
    and "ReadIPsParsed (confHeap pm1 ! pathConf) = Some ips"
    and "ips \<noteq> []"
    and "IP req = Some ip"
  shows "(\<not> ipListed env ip ips \<longrightarrow>
            errorReplyOnly Describe req
              (ErrAuthCritical (''IP '' @ [CHR 0x27] @ IP_String env ip @ [CHR 0x27] @ '' not allowed'') 401)
              pm (rpDescribe env req pm)
          \<and> errorReplyOnly SetupPlay req
              (ErrAuthCritical (''IP '' @ [CHR 0x27] @ IP_String env ip @ [CHR 0x27] @ '' not allowed'') 401)
              pm (rpSetupPlay env req pm))
       \<and> (ipListed env ip ips \<longrightarrow>
            authenticate env pm' (IP req) validateCredentials name (Some ips) pathUser pathPass =
            authenticate env pm' (IP req) validateCredentials name None pathUser pathPass)"
  unfolding rpDescribe_def rpSetupPlay_def
  using rpPlay_ip_rejected [OF assms(1,2,3,4,6)] authenticate_ip_passes assms(6)
  by simp

theorem read_ip_gate_for_present_ip_witness:
  "errorReplyOnly Describe cam1Req
     (ErrAuthCritical (''IP '' @ [CHR 0x27] @ ''192.168.1.5'' @ [CHR 0x27] @ '' not allowed'') 401)
     (oneConf cam1Net10) (rpDescribe exampleEnv cam1Req (oneConf cam1Net10))
   \<and> errorReplyOnly SetupPlay cam1Req
     (ErrAuthCritical (''IP '' @ [CHR 0x27] @ ''192.168.1.5'' @ [CHR 0x27] @ '' not allowed'') 401)
     (oneConf cam1Net10) (rpSetupPlay exampleEnv cam1Req (oneConf cam1Net10))
   \<and> ipListed exampleEnv [10, 1, 2, 3] [ItemIPNet net10]
   \<and> authenticate exampleEnv (oneConf cam1Net10) (IP (cam1Req\<lparr>IP := Some [10, 1, 2, 3]\<rparr>))
       None ''cam1'' (Some [ItemIPNet net10]) '''' '''' =
     authenticate exampleEnv (oneConf cam1Net10) (IP (cam1Req\<lparr>IP := Some [10, 1, 2, 3]\<rparr>))
       None ''cam1'' None '''' ''''
   \<and> authenticate exampleEnv (oneConf cam1Net10) (IP (cam1Req\<lparr>IP := Some [10, 1, 2, 3]\<rparr>))
       None ''cam1'' (Some [ItemIPNet net10]) '''' '''' = None"
proof -
  let ?near = "cam1Req\<lparr>IP := Some [10, 1, 2, 3]\<rparr>"
  have fp: "\<And>r. PathName r = ''cam1'' \<Longrightarrow>
      findPathConf exampleEnv (oneConf cam1Net10) (PathName r) = (Inr (''cam1'', 0), oneConf cam1Net10)"
    by (simp add: findPathConf_oneConf cam1Net10_fields)
  have da: "\<And>r. DoAuthRequest exampleEnv (confHeap (oneConf cam1Net10) ! 0)
      \<lparr>remote_addr = RemoteAddr r, local_addr = LocalAddr r, path = PathName r\<rparr>
      = Inr \<lparr>Close = False, Target = ''''\<rparr>"
    by (simp add: confHeap_oneConf cam1Net10_fields DoAuthRequest_cam1Net10)
  have nc: "\<not> Close \<lparr>Close = False, Target = ''''\<rparr>"
    by simp
  have ips: "ReadIPsParsed (confHeap (oneConf cam1Net10) ! 0) = Some [ItemIPNet net10]"
    by (simp add: confHeap_oneConf cam1Net10_fields)
  have ne: "[ItemIPNet net10] \<noteq> []"
    by simp
  have far: "\<not> ipListed exampleEnv [192, 168, 1, 5] [ItemIPNet net10]"
    by (simp add: ipListed_def exampleEnv_fields exampleContains_def net10_def)
  have near: "ipListed exampleEnv [10, 1, 2, 3] [ItemIPNet net10]"
    by (simp add: ipListed_def exampleEnv_fields exampleContains_def net10_def)
  have w1: "errorReplyOnly Describe cam1Req
     (ErrAuthCritical (''IP '' @ [CHR 0x27] @ ''192.168.1.5'' @ [CHR 0x27] @ '' not allowed'') 401)
     (oneConf cam1Net10) (rpDescribe exampleEnv cam1Req (oneConf cam1Net10))
   \<and> errorReplyOnly SetupPlay cam1Req
     (ErrAuthCritical (''IP '' @ [CHR 0x27] @ ''192.168.1.5'' @ [CHR 0x27] @ '' not allowed'') 401)
     (oneConf cam1Net10) (rpSetupPlay exampleEnv cam1Req (oneConf cam1Net10))"
    using read_ip_gate_for_present_ip
            [OF fp da nc ips ne, of cam1Req "[192, 168, 1, 5]", THEN conjunct1] far
    by (simp add: cam1Req_fields exampleEnv_fields)
  have w2: "authenticate exampleEnv (oneConf cam1Net10) (IP ?near)
       None ''cam1'' (Some [ItemIPNet net10]) '''' '''' =
     authenticate exampleEnv (oneConf cam1Net10) (IP ?near) None ''cam1'' None '''' ''''"
    using read_ip_gate_for_present_ip
            [OF fp da nc ips ne, of ?near "[10, 1, 2, 3]", THEN conjunct2] near
    by (simp add: cam1Req_fields)
  have w3: "authenticate exampleEnv (oneConf cam1Net10) (IP ?near) None ''cam1'' None '''' '''' = None"
    by (simp add: authenticate_def)
  from w1 w2 w3 near show ?thesis
    by simp
qed

text \<open>
  C8. A reload whose map is, key for key, structurally equal to the stored map should close no
  live path and leave the live path set unchanged. The code does not keep to that. After a
  Describe of \<open>cam1\<close> that the callback redirected, the live path holds the copy of the
  configuration made for the redirect, never the stored object; a reload that brings an equal
  configuration for \<open>cam1\<close> leaves the stored map alone and still closes that path, because
  the loop compares the stored object with the configuration of the path by identity. After a
  Describe without a redirect the same reload keeps the path. Moreover each such reload puts a
  new path for the literal entry \<open>cam1\<close> into memory, never stored in the live set: on a
  manager just built, two reloads take the paths in memory from one to three.
\<close>

theorem confReload_same_confs_closes_redirected_path:
  "sameConfs exampleEnv (confHeap afterRedirect) [(''cam1'', 2)] (pathConfs afterRedirect)
   \<and> paths afterRedirect = [(''rtsp://upstream/foo'', 1)]
   \<and> pathConfs (confReload exampleEnv [(''cam1'', 2)] afterRedirect) = pathConfs afterRedirect
   \<and> paths (confReload exampleEnv [(''cam1'', 2)] afterRedirect) = []
   \<and> trace (confReload exampleEnv [(''cam1'', 2)] afterRedirect) = trace afterRedirect @ [PathClosed 1]
   \<and> sameConfs exampleEnv (confHeap afterPlain) [(''cam1'', 1)] (pathConfs afterPlain)
   \<and> paths afterPlain = [(''publisher'', 1)]
   \<and> paths (confReload exampleEnv [(''cam1'', 1)] afterPlain) = paths afterPlain
   \<and> trace (confReload exampleEnv [(''cam1'', 1)] afterPlain) = trace afterPlain
   \<and> sameConfs exampleEnv (confHeap freshAtReload) [(''cam1'', 1)] (pathConfs freshAtReload)
   \<and> length (pathHeap freshAtReload) = 1
   \<and> length (pathHeap (confReload exampleEnv [(''cam1'', 1)] freshAtReload)) = 2
   \<and> length (pathHeap (confReload exampleEnv [(''cam1'', 1)]
                          (confReload exampleEnv [(''cam1'', 1)] freshAtReload))) = 3
   \<and> paths (confReload exampleEnv [(''cam1'', 1)]
              (confReload exampleEnv [(''cam1'', 1)] freshAtReload)) = []
   \<and> trace (confReload exampleEnv [(''cam1'', 1)]
              (confReload exampleEnv [(''cam1'', 1)] freshAtReload)) = []"
  unfolding confReload_freshAtReload_twice
  by (simp add: confReload_afterRedirect confReload_afterPlain confReload_freshAtReload
        del: One_nat_def)
     (simp add: afterRedirect_eq afterPlain_eq freshAtReload_eq sameConfs_def exampleEnv_fields)

text \<open>
  C9. \<^verbatim>\<open>run\<close> panics with the error of \<^verbatim>\<open>ListenAndServe\<close> whenever that error is not
  \<^verbatim>\<open>ErrServerClosed\<close>, and returns without a panic once \<^verbatim>\<open>Close\<close> has shut the server
  down.
\<close>

theorem Metrics_run_panics_unless_server_closed:
  "(Server_ListenAndServe (server m) failure \<noteq> ErrServerClosed \<longrightarrow>
      Metrics_run m failure = Panicked (Server_ListenAndServe (server m) failure))
   \<and> Metrics_run (Metrics_Close m) failure = Returned"
  by (simp add: Metrics_run_def Metrics_Close_def Server_Shutdown_def Server_ListenAndServe_def)

theorem Metrics_run_panics_unless_server_closed_witness:
  "Server_ListenAndServe (server \<lparr>server = \<lparr>inShutdown = False\<rparr>\<rparr>) (ErrExternal ''address already in use'')
     \<noteq> ErrServerClosed
   \<and> Metrics_run \<lparr>server = \<lparr>inShutdown = False\<rparr>\<rparr> (ErrExternal ''address already in use'')
     = Panicked (ErrExternal ''address already in use'')
   \<and> Metrics_run (Metrics_Close \<lparr>server = \<lparr>inShutdown = False\<rparr>\<rparr>) (ErrExternal ''address already in use'')
     = Returned"
  using Metrics_run_panics_unless_server_closed
    [of "\<lparr>server = \<lparr>inShutdown = False\<rparr>\<rparr>" "ErrExternal ''address already in use''"]
  by (simp add: Server_ListenAndServe_def)

text \<open>
  C10. For a request whose address is nil, \<^verbatim>\<open>authenticate\<close> never looks at the allow-list:
  its result is the result of the credential check alone, the same as with no list at all.
\<close>

theorem authenticate_nil_ip_skips_allow_list:
  "authenticate env pm None validateCredentials pathName pathIPs pathUser pathPass =
     (if pathUser \<noteq> '''' \<and> validateCredentials \<noteq> None
      then (the validateCredentials) (authMethods pm) pathUser pathPass
      else None)
   \<and> authenticate env pm None validateCredentials pathName pathIPs pathUser pathPass =
       authenticate env pm None validateCredentials pathName None pathUser pathPass"
  by (simp add: authenticate_def)

end
